theory Spec2Isabelle
  imports Complex_Main "HOL-Library.Sublist"
begin

section \<open>Physics loss terms and data-parallel partition of paddlescience/solver/utils.py\<close>

text \<open>
  The tensors of the source hold floating-point numbers; they are read here as real
  numbers, so every statement below is one of exact arithmetic. A one-dimensional tensor
  is the list of its elements, a two-dimensional tensor the list of its rows. Two
  operations leave the real numbers in floating point and yield nan or inf there: the
  square root of a negative number and the division by zero. Statements that meet them
  carry the hypothesis that keeps them away (a non-negative weight, a nonzero scale).
\<close>

subsection \<open>Errors\<close>

text \<open>
  The source has no \<^verbatim>\<open>raise\<close> of its own. What can fail is a dictionary
  lookup (Python's KeyError), a list index (Python's IndexError) and an operation of the
  tensor engine (indexing a tensor, combining two tensors of different shapes).
\<close>

datatype error = KeyError | IndexError | EngineError

definition bind :: "error + 'a \<Rightarrow> ('a \<Rightarrow> error + 'b) \<Rightarrow> error + 'b" where
  "bind m f = (case m of Inl e \<Rightarrow> Inl e | Inr x \<Rightarrow> f x)"

subsection \<open>Tensors\<close>

type_synonym tensor1 = "real list"
type_synonym tensor2 = "real list list"

text \<open>\<^verbatim>\<open>paddle.norm(x, p=2)\<close>: the square root of the sum of the squares of all elements.\<close>

definition sum_squares :: "tensor1 \<Rightarrow> real" where
  "sum_squares x = sum_list (map (\<lambda>v. v * v) x)"

definition paddle_norm :: "tensor1 \<Rightarrow> real" where
  "paddle_norm x = sqrt (sum_squares x)"

text \<open>A tensor times a scalar, a tensor divided by a scalar.\<close>

definition scale_tensor :: "tensor1 \<Rightarrow> real \<Rightarrow> tensor1" where
  "scale_tensor x c = map (\<lambda>v. v * c) x"

definition div_tensor :: "tensor1 \<Rightarrow> real \<Rightarrow> tensor1" where
  "div_tensor x c = map (\<lambda>v. v / c) x"

subsection \<open>l2_norm_square\<close>

text \<open>
  \<^verbatim>\<open>
  def l2_norm_square(x, scale=None):
      if scale is None:
          l2_norm = paddle.norm(x, p=2)
      else:
          l2_norm = paddle.norm(x * scale, p=2) / scale
      return l2_norm * l2_norm
  \<close>
\<close>

definition l2_norm_square :: "tensor1 \<Rightarrow> real option \<Rightarrow> real" where
  "l2_norm_square x scale =
     (let l2_norm = (case scale of
                       None \<Rightarrow> paddle_norm x
                     | Some s \<Rightarrow> paddle_norm (scale_tensor x s) / s)
      in l2_norm * l2_norm)"

text \<open>
  \<^verbatim>\<open>t[:, k]\<close> on a two-dimensional tensor: the k-th element of every row. The engine
  refuses a column that the rows do not have.
\<close>

definition column :: "tensor2 \<Rightarrow> nat \<Rightarrow> error + tensor1" where
  "column t k =
     (if list_all (\<lambda>row. k < length row) t then Inr (map (\<lambda>row. row ! k) t)
      else Inl EngineError)"

text \<open>
  \<^verbatim>\<open>t[:, index]\<close> where \<^verbatim>\<open>index\<close> comes from \<^verbatim>\<open>dict.get\<close> and so may be
  \<^verbatim>\<open>None\<close>. What the engine does with \<^verbatim>\<open>t[:, None]\<close> is not part of this
  repository: it is the parameter \<open>index_none\<close>.
\<close>

definition getitem_column ::
  "(tensor2 \<Rightarrow> error + tensor1) \<Rightarrow> tensor2 \<Rightarrow> nat option \<Rightarrow> error + tensor1" where
  "getitem_column index_none t index =
     (case index of None \<Rightarrow> index_none t | Some k \<Rightarrow> column t k)"

text \<open>
  An elementwise operation on two one-dimensional tensors, with the engine's broadcasting:
  equal lengths combine position by position, a tensor of length one is repeated, every
  other pair of shapes is refused.
\<close>

definition elementwise ::
  "(real \<Rightarrow> real \<Rightarrow> real) \<Rightarrow> tensor1 \<Rightarrow> tensor1 \<Rightarrow> error + tensor1" where
  "elementwise f a b =
     (if length a = length b then Inr (map2 f a b)
      else if length b = 1 then Inr (map (\<lambda>x. f x (hd b)) a)
      else if length a = 1 then Inr (map (\<lambda>y. f (hd a) y) b)
      else Inl EngineError)"

text \<open>The right operand of a subtraction is a Python number or a tensor.\<close>

datatype operand = Scalar real | Tensor tensor1

definition tensor_sub :: "tensor1 \<Rightarrow> operand \<Rightarrow> error + tensor1" where
  "tensor_sub a b =
     (case b of Scalar c \<Rightarrow> Inr (map (\<lambda>x. x - c) a) | Tensor t \<Rightarrow> elementwise (-) a t)"

definition np_sqrt :: "real \<Rightarrow> real" where
  "np_sqrt w = sqrt w"

subsection \<open>Python containers\<close>

text \<open>A dictionary is the list of its items, in insertion order; a key occurs once.\<close>

type_synonym ('k, 'v) dict = "('k \<times> 'v) list"

definition keys :: "('k, 'v) dict \<Rightarrow> 'k list" where
  "keys d = map fst d"

definition dict_item :: "('k, 'v) dict \<Rightarrow> 'k \<Rightarrow> error + 'v" where
  "dict_item d k = (case map_of d k of None \<Rightarrow> Inl KeyError | Some v \<Rightarrow> Inr v)"

definition dict_get :: "('k, 'v) dict \<Rightarrow> 'k \<Rightarrow> 'v option" where
  "dict_get d k = map_of d k"

definition list_item :: "'a list \<Rightarrow> nat \<Rightarrow> error + 'a" where
  "list_item xs i = (if i < length xs then Inr (xs ! i) else Inl IndexError)"

text \<open>A \<^verbatim>\<open>for\<close> loop over a list whose body updates one variable and may fail.\<close>

fun for_each :: "('s \<Rightarrow> 'a \<Rightarrow> error + 's) \<Rightarrow> 's \<Rightarrow> 'a list \<Rightarrow> error + 's" where
  "for_each body s [] = Inr s"
| "for_each body s (x # xs) =
     (case body s x of Inl e \<Rightarrow> Inl e | Inr s' \<Rightarrow> for_each body s' xs)"

subsection \<open>compute_bc_loss\<close>

text \<open>
  \<^verbatim>\<open>
  def compute_bc_loss(inputs_attr, labels_attr, outputs_var, pde_disc):
      name2index = {'u': 0, 'v': 1, 'w': 2, 'p': 3}
      bc_loss = 0.0
      name_list = []
      for i, name_b in enumerate(inputs_attr["bc"].keys()):
          # from outputs_var[1] to outputs_var[3]
          out_el = outputs_var[i + 1]
          for j in range(len(pde_disc.bc[name_b])):
              rhs_b = labels_attr["bc"][name_b][j]["rhs"]
              wgt_b = labels_attr["bc"][name_b][j]["weight"]
              index = name2index.get(pde_disc.bc[name_b][j].name)

              bc_loss += l2_norm_square(
                  (out_el[:, index] - rhs_b) * np.sqrt(wgt_b), 10000)
      return bc_loss
  \<close>
  The entries of \<^verbatim>\<open>labels_attr["bc"][name_b]\<close> are records with the fields
  \<open>rhs\<close> and \<open>weight\<close>, those of \<^verbatim>\<open>pde_disc.bc[name_b]\<close> objects with the
  attribute \<open>name\<close>.
\<close>

record label =
  rhs :: operand
  weight :: real

record boundary_condition =
  name :: string

record pde_disc =
  bc :: "(string, boundary_condition list) dict"

definition name2index :: "(string, nat) dict" where
  "name2index = [(''u'', 0), (''v'', 1), (''w'', 2), (''p'', 3)]"

text \<open>The summand of one sub-condition, lines 117 and 118.\<close>

definition bc_term ::
  "(tensor2 \<Rightarrow> error + tensor1) \<Rightarrow> tensor2 \<Rightarrow> nat option \<Rightarrow> operand \<Rightarrow> real \<Rightarrow> error + real" where
  "bc_term index_none out_el index rhs_b wgt_b =
     bind (getitem_column index_none out_el index) (\<lambda>col.
     bind (tensor_sub col rhs_b) (\<lambda>diff.
       Inr (l2_norm_square (scale_tensor diff (np_sqrt wgt_b)) (Some 10000))))"

text \<open>The body of the inner loop.\<close>

definition bc_inner ::
  "(tensor2 \<Rightarrow> error + tensor1) \<Rightarrow> (string, (string, label list) dict) dict \<Rightarrow> pde_disc
     \<Rightarrow> string \<Rightarrow> tensor2 \<Rightarrow> real \<Rightarrow> nat \<Rightarrow> error + real" where
  "bc_inner index_none labels_attr pde name_b out_el bc_loss j =
     bind (dict_item labels_attr ''bc'') (\<lambda>labels_bc.
     bind (dict_item labels_bc name_b) (\<lambda>labels_b.
     bind (list_item labels_b j) (\<lambda>label_j.
     let rhs_b = rhs label_j; wgt_b = weight label_j in
     bind (dict_item (bc pde) name_b) (\<lambda>bc_b.
     bind (list_item bc_b j) (\<lambda>bc_j.
     let index = dict_get name2index (name bc_j) in
     bind (bc_term index_none out_el index rhs_b wgt_b) (\<lambda>term.
       Inr (bc_loss + term)))))))"

text \<open>The body of the outer loop.\<close>

definition bc_outer ::
  "(tensor2 \<Rightarrow> error + tensor1) \<Rightarrow> (string, (string, label list) dict) dict \<Rightarrow> tensor2 list
     \<Rightarrow> pde_disc \<Rightarrow> real \<Rightarrow> nat \<times> string \<Rightarrow> error + real" where
  "bc_outer index_none labels_attr outputs_var pde bc_loss ib =
     (case ib of (i, name_b) \<Rightarrow>
        bind (list_item outputs_var (i + 1)) (\<lambda>out_el.
        bind (dict_item (bc pde) name_b) (\<lambda>bc_b.
          for_each (bc_inner index_none labels_attr pde name_b out_el) bc_loss
            [0..<length bc_b])))"

definition compute_bc_loss ::
  "(tensor2 \<Rightarrow> error + tensor1) \<Rightarrow> (string, (string, 'a) dict) dict
     \<Rightarrow> (string, (string, label list) dict) dict \<Rightarrow> tensor2 list \<Rightarrow> pde_disc \<Rightarrow> error + real" where
  "compute_bc_loss index_none inputs_attr labels_attr outputs_var pde =
     bind (dict_item inputs_attr ''bc'') (\<lambda>inputs_bc.
       for_each (bc_outer index_none labels_attr outputs_var pde) 0
         (enumerate 0 (keys inputs_bc)))"

subsection \<open>compute_eq_loss\<close>

text \<open>
  \<^verbatim>\<open>paddle.static.gradients\<close> is the engine's reverse-mode differentiation. Its
  thirteen results are taken as given, under the names the source binds them to:
  \<open>jac0\<close> to \<open>jac3\<close> are the gradients of u, v, w and p with respect to the inputs
  (one row per point, the columns d/dx, d/dy, d/dz); \<open>hes0\<close>, \<open>hes1\<close>, \<open>hes2\<close> are
  the gradients of the columns 0, 1, 2 of \<open>jac0\<close>, \<open>hes3\<close> to \<open>hes5\<close> those of the
  columns of \<open>jac1\<close>, \<open>hes6\<close> to \<open>hes8\<close> those of the columns of \<open>jac2\<close>.
\<close>

record gradients =
  jac0 :: tensor2
  jac1 :: tensor2
  jac2 :: tensor2
  jac3 :: tensor2
  hes0 :: tensor2
  hes1 :: tensor2
  hes2 :: tensor2
  hes3 :: tensor2
  hes4 :: tensor2
  hes5 :: tensor2
  hes6 :: tensor2
  hes7 :: tensor2
  hes8 :: tensor2

text \<open>
  The arithmetic of tensor expressions. An operand that failed makes the expression fail,
  the left operand before the right one, both before the operation itself.
\<close>

definition lift2 ::
  "(real \<Rightarrow> real \<Rightarrow> real) \<Rightarrow> error + tensor1 \<Rightarrow> error + tensor1 \<Rightarrow> error + tensor1" where
  "lift2 f a b = bind a (\<lambda>x. bind b (\<lambda>y. elementwise f x y))"

definition add :: "error + tensor1 \<Rightarrow> error + tensor1 \<Rightarrow> error + tensor1" where
  "add a b = lift2 (+) a b"

definition sub :: "error + tensor1 \<Rightarrow> error + tensor1 \<Rightarrow> error + tensor1" where
  "sub a b = lift2 (-) a b"

definition mul :: "error + tensor1 \<Rightarrow> error + tensor1 \<Rightarrow> error + tensor1" where
  "mul a b = lift2 (*) a b"

text \<open>A Python number times a tensor expression.\<close>

definition scalar_times :: "real \<Rightarrow> error + tensor1 \<Rightarrow> error + tensor1" where
  "scalar_times c a = bind a (\<lambda>x. Inr (map (\<lambda>v. c * v) x))"

text \<open>
  \<^verbatim>\<open>
      continuty = jac0[:, 0] + jac1[:, 1] + jac2[:, 2]
  \<close>
\<close>

definition continuty :: "gradients \<Rightarrow> error + tensor1" where
  "continuty g = add (add (column (jac0 g) 0) (column (jac1 g) 1)) (column (jac2 g) 2)"

text \<open>
  The three momentum residuals are one expression at three sets of operands:
  \<^verbatim>\<open>
      momentum_x = u / dt - u_n / dt + u * jac0[:, 0] + v * jac0[:, 1] + w * jac0[:, 2] - \
                  nu / rho * hes0[:, 0] - nu / rho * hes1[:, 1] - nu / rho * hes2[:, 2] + \
                  1.0 / rho * jac3[:, 0]
      momentum_y = v / dt - v_n / dt + u * jac1[:, 0] + v * jac1[:, 1] + w * jac1[:, 2] - \
                  nu / rho * hes3[:, 0] - nu / rho * hes4[:, 1] - nu / rho * hes5[:, 2] + \
                  1.0 / rho * jac3[:, 1]
      momentum_z = w / dt - w_n / dt + u * jac2[:, 0] + v * jac2[:, 1] + w * jac2[:, 2] - \
                  nu / rho * hes6[:, 0] - nu / rho * hes7[:, 1] - nu / rho * hes8[:, 2] + \
                  1.0 / rho * jac3[:, 2]
  \<close>
  In \<open>momentum f f_n u v w jac hx hy hz jacp k\<close> the field is \<open>f\<close>, its value at the
  previous time step \<open>f_n\<close>, its gradient \<open>jac\<close>, the gradients of the three columns
  of \<open>jac\<close> are \<open>hx\<close>, \<open>hy\<close>, \<open>hz\<close>, and \<open>k\<close> is the column of the pressure
  gradient \<open>jacp\<close>.
\<close>

definition momentum ::
  "real \<Rightarrow> real \<Rightarrow> real \<Rightarrow> tensor1 \<Rightarrow> tensor1 \<Rightarrow> tensor1 \<Rightarrow> tensor1 \<Rightarrow> tensor1
     \<Rightarrow> tensor2 \<Rightarrow> tensor2 \<Rightarrow> tensor2 \<Rightarrow> tensor2 \<Rightarrow> tensor2 \<Rightarrow> nat \<Rightarrow> error + tensor1" where
  "momentum nu rho dt f f_n u v w jac hx hy hz jacp k =
     add (sub (sub (sub
       (add (add (add
         (sub (Inr (div_tensor f dt)) (Inr (div_tensor f_n dt)))
         (mul (Inr u) (column jac 0)))
         (mul (Inr v) (column jac 1)))
         (mul (Inr w) (column jac 2)))
       (scalar_times (nu / rho) (column hx 0)))
       (scalar_times (nu / rho) (column hy 1)))
       (scalar_times (nu / rho) (column hz 2)))
       (scalar_times (1.0 / rho) (column jacp k))"

text \<open>\<^verbatim>\<open>(residual - rhs) * wgt\<close> with the Python numbers \<open>rhs\<close> (here \<open>r\<close>) and \<open>wgt\<close> (here \<open>c\<close>).\<close>

definition weighted :: "tensor1 \<Rightarrow> real \<Rightarrow> real \<Rightarrow> tensor1" where
  "weighted residual r c = scale_tensor (map (\<lambda>v. v - r) residual) c"

text \<open>
  \<^verbatim>\<open>
  def compute_eq_loss(inputs, outputs, labels_var):
      x = inputs[:, 0]
      y = inputs[:, 1]
      z = inputs[:, 2]
      u = outputs[:, 0]
      v = outputs[:, 1]
      w = outputs[:, 2]
      p = outputs[:, 3]
      u_n = labels_var[0]
      v_n = labels_var[1]
      w_n = labels_var[2]
      jac0, = paddle.static.gradients([u], [inputs])  # du/dx, du/dy, du/dz
      ...
      hes8, = paddle.static.gradients(
          [jac2[:, 2]], [inputs])  # dw*dw/dz*dx, dw*dw/dz*dy, dw*dw/dz*dz

      nu = 0.01
      rho = 1.0
      dt = 1.0
      continuty = ...
      momentum_x = ...
      momentum_y = ...
      momentum_z = ...

      rhs = 0
      wgt = np.sqrt(0.01)

      eq_loss = l2_norm_square((continuty - rhs)*wgt) + \
              l2_norm_square((momentum_x - rhs)*wgt) + \
              l2_norm_square((momentum_y - rhs)*wgt) + \
              l2_norm_square((momentum_z - rhs)*wgt)
      return eq_loss
  \<close>
  The columns of \<open>jac0\<close>, \<open>jac1\<close> and \<open>jac2\<close> are sliced once more where they are
  handed to the differentiation (the nine \<open>hes\<close> lines).
\<close>

definition compute_eq_loss ::
  "gradients \<Rightarrow> tensor2 \<Rightarrow> tensor2 \<Rightarrow> tensor1 list \<Rightarrow> error + real" where
  "compute_eq_loss g inputs outputs labels_var =
     bind (column inputs 0) (\<lambda>x.
     bind (column inputs 1) (\<lambda>y.
     bind (column inputs 2) (\<lambda>z.
     bind (column outputs 0) (\<lambda>u.
     bind (column outputs 1) (\<lambda>v.
     bind (column outputs 2) (\<lambda>w.
     bind (column outputs 3) (\<lambda>p.
     bind (list_item labels_var 0) (\<lambda>u_n.
     bind (list_item labels_var 1) (\<lambda>v_n.
     bind (list_item labels_var 2) (\<lambda>w_n.
     bind (column (jac0 g) 0) (\<lambda>_. bind (column (jac0 g) 1) (\<lambda>_. bind (column (jac0 g) 2) (\<lambda>_.
     bind (column (jac1 g) 0) (\<lambda>_. bind (column (jac1 g) 1) (\<lambda>_. bind (column (jac1 g) 2) (\<lambda>_.
     bind (column (jac2 g) 0) (\<lambda>_. bind (column (jac2 g) 1) (\<lambda>_. bind (column (jac2 g) 2) (\<lambda>_.
     let nu = 0.01; rho = 1.0; dt = 1.0 in
     bind (continuty g) (\<lambda>continuty.
     bind (momentum nu rho dt u u_n u v w (jac0 g) (hes0 g) (hes1 g) (hes2 g) (jac3 g) 0)
       (\<lambda>momentum_x.
     bind (momentum nu rho dt v v_n u v w (jac1 g) (hes3 g) (hes4 g) (hes5 g) (jac3 g) 1)
       (\<lambda>momentum_y.
     bind (momentum nu rho dt w w_n u v w (jac2 g) (hes6 g) (hes7 g) (hes8 g) (jac3 g) 2)
       (\<lambda>momentum_z.
     let rhs = 0; wgt = np_sqrt 0.01 in
     Inr (l2_norm_square (weighted continuty rhs wgt) None
          + l2_norm_square (weighted momentum_x rhs wgt) None
          + l2_norm_square (weighted momentum_y rhs wgt) None
          + l2_norm_square (weighted momentum_z rhs wgt) None)
     )))))))))))))))))))))))"

subsection \<open>The boundary loss in the words of the specification\<close>

text \<open>
  The fixed mapping from a channel name to its index; the difference of a channel and a
  target, element by element: a number is subtracted from every element, a tensor of the
  same length position by position, and of a channel or a target of length one the single
  element stands at every position; the weighted squared deviation of one sub-condition
  (the weight times the squared L2 norm of the selected output channel minus the
  right-hand side), and its sum over the boundaries, the i-th boundary reading
  \<open>outputs_var ! (i + 1)\<close>, and over the sub-conditions of each.
\<close>

definition channel :: "string \<Rightarrow> nat" where
  "channel n = (if n = ''u'' then 0 else if n = ''v'' then 1 else if n = ''w'' then 2 else 3)"

definition difference :: "tensor1 \<Rightarrow> operand \<Rightarrow> tensor1" where
  "difference col target =
     (case target of
        Scalar c \<Rightarrow> map (\<lambda>i. col ! i - c) [0..<length col]
      | Tensor t \<Rightarrow>
          map (\<lambda>i. col ! (if length col = 1 then 0 else i) - t ! (if length t = 1 then 0 else i))
            [0..<(if length col = 1 then length t else length col)])"

definition deviation :: "tensor2 \<Rightarrow> boundary_condition \<Rightarrow> label \<Rightarrow> tensor1" where
  "deviation out c l = difference (map (\<lambda>row. row ! channel (name c)) out) (rhs l)"

definition weighted_deviation :: "tensor2 \<Rightarrow> boundary_condition \<Rightarrow> label \<Rightarrow> real" where
  "weighted_deviation out c l = weight l * sum_squares (deviation out c l)"

definition bc_loss_sum ::
  "string list \<Rightarrow> (string, label list) dict \<Rightarrow> tensor2 list \<Rightarrow> pde_disc \<Rightarrow> real" where
  "bc_loss_sum names labels_bc outputs_var pde =
     (\<Sum>(i, name_b) \<leftarrow> enumerate 0 names.
        \<Sum>j \<leftarrow> [0..<length (the (map_of (bc pde) name_b))].
          weighted_deviation (outputs_var ! (i + 1)) (the (map_of (bc pde) name_b) ! j)
            (the (map_of labels_bc name_b) ! j))"

definition valid_names :: "pde_disc \<Rightarrow> bool" where
  "valid_names pde =
     list_all (\<lambda>(n, cs). list_all (\<lambda>c. name c \<in> {''u'', ''v'', ''w'', ''p''}) cs) (bc pde)"

definition nonneg_weights :: "(string, label list) dict \<Rightarrow> bool" where
  "nonneg_weights labels_bc = list_all (\<lambda>(n, ls). list_all (\<lambda>l. 0 \<le> weight l) ls) labels_bc"

text \<open>
  The label records match the boundary metadata when every boundary has its output tensor,
  its conditions and at least as many label records, every sub-condition is named u, v, w or
  p and has a non-negative weight, every row of the output tensor has the selected channel,
  and a right-hand side that is a tensor has one value per row, or a single value, or meets
  an output tensor of a single row.
\<close>

definition sub_condition_matches :: "tensor2 \<Rightarrow> boundary_condition \<Rightarrow> label \<Rightarrow> bool" where
  "sub_condition_matches out_el c l =
     (name c \<in> {''u'', ''v'', ''w'', ''p''} \<and> 0 \<le> weight l
      \<and> list_all (\<lambda>row. channel (name c) < length row) out_el
      \<and> (case rhs l of
            Scalar r \<Rightarrow> True
          | Tensor t \<Rightarrow> length t = length out_el \<or> length t = 1 \<or> length out_el = 1))"

definition boundary_matches ::
  "(string, label list) dict \<Rightarrow> tensor2 list \<Rightarrow> pde_disc \<Rightarrow> nat \<times> string \<Rightarrow> bool" where
  "boundary_matches labels_bc outputs_var pde ib =
     (case ib of (i, name_b) \<Rightarrow>
        i + 1 < length outputs_var
        \<and> (case map_of (bc pde) name_b of
              None \<Rightarrow> False
            | Some bc_b \<Rightarrow>
                (case map_of labels_bc name_b of
                   None \<Rightarrow> False
                 | Some labels_b \<Rightarrow>
                     length bc_b \<le> length labels_b
                     \<and> list_all (\<lambda>j. sub_condition_matches (outputs_var ! (i + 1)) (bc_b ! j)
                                      (labels_b ! j)) [0..<length bc_b])))"

definition records_match ::
  "string list \<Rightarrow> (string, label list) dict \<Rightarrow> tensor2 list \<Rightarrow> pde_disc \<Rightarrow> bool" where
  "records_match names labels_bc outputs_var pde =
     list_all (boundary_matches labels_bc outputs_var pde) (enumerate 0 names)"

text \<open>
  A configuration whose right-hand sides are a nonzero number and a tensor and whose
  sub-conditions select the channels u, v and p.
\<close>

definition pin_inputs_attr :: "(string, (string, unit) dict) dict" where
  "pin_inputs_attr = [(''bc'', [(''wall'', ()), (''inlet'', ())])]"

definition pin_labels_bc :: "(string, label list) dict" where
  "pin_labels_bc =
     [(''wall'', [\<lparr>rhs = Scalar 3, weight = 2\<rparr>]),
      (''inlet'', [\<lparr>rhs = Tensor [5, 10], weight = 1\<rparr>, \<lparr>rhs = Scalar 1, weight = 4\<rparr>])]"

definition pin_labels_attr :: "(string, (string, label list) dict) dict" where
  "pin_labels_attr = [(''bc'', pin_labels_bc)]"

definition pin_pde :: pde_disc where
  "pin_pde = \<lparr>bc = [(''wall'', [\<lparr>name = ''u''\<rparr>]),
                   (''inlet'', [\<lparr>name = ''v''\<rparr>, \<lparr>name = ''p''\<rparr>])]\<rparr>"

definition pin_outputs_var :: "tensor2 list" where
  "pin_outputs_var =
     [[[0, 0, 0, 0]], [[1, 0, 0, 0], [2, 0, 0, 0]], [[3, 7, 0, 1], [1, 9, 0, 2]]]"

text \<open>
  Modelled from the spec: the tensor engine's indexing \<^verbatim>\<open>t[:, None]\<close>, which is not part
  of this repository. The specification says that unknown boundary-name lookups fail through
  the engine's own error reporting: the engine refuses the index \<^verbatim>\<open>None\<close>.
\<close>

definition engine_refuses :: "tensor2 \<Rightarrow> error + tensor1" where
  "engine_refuses t = Inl EngineError"

text \<open>A configuration with two boundaries and three sub-conditions.\<close>

definition ex_inputs_attr :: "(string, (string, unit) dict) dict" where
  "ex_inputs_attr = [(''bc'', [(''wall'', ()), (''inlet'', ())])]"

definition ex_labels_bc :: "real \<Rightarrow> (string, label list) dict" where
  "ex_labels_bc w =
     [(''wall'', [\<lparr>rhs = Scalar 0, weight = w\<rparr>]),
      (''inlet'', [\<lparr>rhs = Tensor [1, 1], weight = 1\<rparr>, \<lparr>rhs = Scalar 0, weight = 4\<rparr>])]"

definition ex_labels_attr :: "real \<Rightarrow> (string, (string, label list) dict) dict" where
  "ex_labels_attr w = [(''bc'', ex_labels_bc w)]"

definition ex_pde :: pde_disc where
  "ex_pde = \<lparr>bc = [(''wall'', [\<lparr>name = ''u''\<rparr>]),
                  (''inlet'', [\<lparr>name = ''u''\<rparr>, \<lparr>name = ''p''\<rparr>])]\<rparr>"

definition ex_outputs_var :: "tensor2 list" where
  "ex_outputs_var =
     [[[0, 0, 0, 0]], [[1, 0, 0, 0], [2, 0, 0, 0]], [[3, 0, 0, 1], [1, 0, 0, 2]]]"

subsection \<open>The equation loss in the words of the specification\<close>

text \<open>
  The residuals at the point \<open>i\<close>: the continuity residual du/dx + dv/dy + dw/dz, and
  the momentum residual of a field \<open>f\<close>, which is
  (f - f_n)/dt + u * df/dx + v * df/dy + w * df/dz - (nu/rho) * (Laplacian of f)
  + (1/rho) * (component of the pressure gradient), at nu = 0.01, rho = 1, dt = 1. The
  loss is 0.01 times the sum of the squared L2 norms of the four residuals over the
  \<open>n\<close> points. \<open>well_shaped\<close> says that the inputs have the columns x, y, z, the
  outputs the columns u, v, w, p, every gradient tensor three columns, all over the same
  \<open>n\<close> points, and that the three previous-step labels hold one value per point.
\<close>

definition continuity_at :: "gradients \<Rightarrow> nat \<Rightarrow> real" where
  "continuity_at g i = jac0 g ! i ! 0 + jac1 g ! i ! 1 + jac2 g ! i ! 2"

definition momentum_at ::
  "real \<Rightarrow> real \<Rightarrow> real \<Rightarrow> real \<Rightarrow> real \<Rightarrow> real \<Rightarrow> real \<Rightarrow> real \<Rightarrow> real \<Rightarrow> real \<Rightarrow> real
     \<Rightarrow> real \<Rightarrow> real \<Rightarrow> real" where
  "momentum_at nu rho dt f f_n u v w fx fy fz laplacian px =
     (f - f_n) / dt + u * fx + v * fy + w * fz - (nu / rho) * laplacian + (1 / rho) * px"

definition momentum_x_at :: "gradients \<Rightarrow> tensor2 \<Rightarrow> tensor1 list \<Rightarrow> nat \<Rightarrow> real" where
  "momentum_x_at g outputs labels_var i =
     momentum_at 0.01 1 1 (outputs ! i ! 0) (labels_var ! 0 ! i)
       (outputs ! i ! 0) (outputs ! i ! 1) (outputs ! i ! 2)
       (jac0 g ! i ! 0) (jac0 g ! i ! 1) (jac0 g ! i ! 2)
       (hes0 g ! i ! 0 + hes1 g ! i ! 1 + hes2 g ! i ! 2) (jac3 g ! i ! 0)"

definition momentum_y_at :: "gradients \<Rightarrow> tensor2 \<Rightarrow> tensor1 list \<Rightarrow> nat \<Rightarrow> real" where
  "momentum_y_at g outputs labels_var i =
     momentum_at 0.01 1 1 (outputs ! i ! 1) (labels_var ! 1 ! i)
       (outputs ! i ! 0) (outputs ! i ! 1) (outputs ! i ! 2)
       (jac1 g ! i ! 0) (jac1 g ! i ! 1) (jac1 g ! i ! 2)
       (hes3 g ! i ! 0 + hes4 g ! i ! 1 + hes5 g ! i ! 2) (jac3 g ! i ! 1)"

definition momentum_z_at :: "gradients \<Rightarrow> tensor2 \<Rightarrow> tensor1 list \<Rightarrow> nat \<Rightarrow> real" where
  "momentum_z_at g outputs labels_var i =
     momentum_at 0.01 1 1 (outputs ! i ! 2) (labels_var ! 2 ! i)
       (outputs ! i ! 0) (outputs ! i ! 1) (outputs ! i ! 2)
       (jac2 g ! i ! 0) (jac2 g ! i ! 1) (jac2 g ! i ! 2)
       (hes6 g ! i ! 0 + hes7 g ! i ! 1 + hes8 g ! i ! 2) (jac3 g ! i ! 2)"

definition squared_l2_norm :: "nat \<Rightarrow> (nat \<Rightarrow> real) \<Rightarrow> real" where
  "squared_l2_norm n residual = (\<Sum>i\<leftarrow>[0..<n]. (residual i)\<^sup>2)"

definition eq_loss_sum :: "nat \<Rightarrow> gradients \<Rightarrow> tensor2 \<Rightarrow> tensor1 list \<Rightarrow> real" where
  "eq_loss_sum n g outputs labels_var =
     0.01 * (squared_l2_norm n (continuity_at g)
             + squared_l2_norm n (momentum_x_at g outputs labels_var)
             + squared_l2_norm n (momentum_y_at g outputs labels_var)
             + squared_l2_norm n (momentum_z_at g outputs labels_var))"

definition has_shape :: "nat \<Rightarrow> nat \<Rightarrow> tensor2 \<Rightarrow> bool" where
  "has_shape n m t = (length t = n \<and> list_all (\<lambda>row. length row = m) t)"

definition well_shaped :: "nat \<Rightarrow> gradients \<Rightarrow> tensor2 \<Rightarrow> tensor2 \<Rightarrow> tensor1 list \<Rightarrow> bool" where
  "well_shaped n g inputs outputs labels_var =
     (has_shape n 3 inputs \<and> has_shape n 4 outputs
      \<and> list_all (has_shape n 3)
          [jac0 g, jac1 g, jac2 g, jac3 g, hes0 g, hes1 g, hes2 g, hes3 g, hes4 g, hes5 g,
           hes6 g, hes7 g, hes8 g]
      \<and> 3 \<le> length labels_var \<and> length (labels_var ! 0) = n
      \<and> length (labels_var ! 1) = n \<and> length (labels_var ! 2) = n)"

text \<open>Two points with their gradient tensors and previous-step labels.\<close>

definition ex_gradients :: gradients where
  "ex_gradients =
     \<lparr>jac0 = [[1, 2, 3], [0, 0, 0]], jac1 = [[0, 1, 0], [0, 3, 0]],
      jac2 = [[0, 0, 1], [0, 0, 1]], jac3 = [[1, 1, 1], [0, 0, 0]],
      hes0 = [[1, 0, 0], [0, 0, 0]], hes1 = [[0, 1, 0], [0, 0, 0]],
      hes2 = [[0, 0, 1], [0, 0, 0]], hes3 = [[0, 0, 0], [0, 0, 0]],
      hes4 = [[0, 0, 0], [0, 0, 0]], hes5 = [[0, 0, 0], [0, 0, 0]],
      hes6 = [[0, 0, 0], [0, 0, 0]], hes7 = [[0, 0, 0], [0, 0, 0]],
      hes8 = [[0, 0, 0], [0, 0, 100]]\<rparr>"

definition ex_inputs :: tensor2 where
  "ex_inputs = [[0, 0, 0], [1, 1, 1]]"

definition ex_outputs :: tensor2 where
  "ex_outputs = [[1, 2, 3, 4], [0, 0, 0, 0]]"

definition ex_labels_var :: "tensor1 list" where
  "ex_labels_var = [[1, 1], [2, 2], [3, 3]]"

subsection \<open>Exact solutions and translated coordinates\<close>

text \<open>
  A field satisfies the equations exactly when the four residuals vanish at every point;
  the boundary data are matched exactly when every deviation is zero. \<open>zero_gradients\<close>
  are the gradient tensors of the one-point example whose derivative terms are all zero.
\<close>

definition residuals_vanish :: "nat \<Rightarrow> gradients \<Rightarrow> tensor2 \<Rightarrow> tensor1 list \<Rightarrow> bool" where
  "residuals_vanish n g outputs labels_var =
     list_all (\<lambda>i. continuity_at g i = 0 \<and> momentum_x_at g outputs labels_var i = 0
                 \<and> momentum_y_at g outputs labels_var i = 0
                 \<and> momentum_z_at g outputs labels_var i = 0) [0..<n]"

definition zero_mismatch ::
  "string list \<Rightarrow> (string, label list) dict \<Rightarrow> tensor2 list \<Rightarrow> pde_disc \<Rightarrow> bool" where
  "zero_mismatch names labels_bc outputs_var pde =
     list_all (\<lambda>(i, name_b).
         list_all (\<lambda>j. list_all (\<lambda>d. d = 0)
                          (deviation (outputs_var ! (i + 1)) (the (map_of (bc pde) name_b) ! j)
                             (the (map_of labels_bc name_b) ! j)))
           [0..<length (the (map_of (bc pde) name_b))])
       (enumerate 0 names)"

definition zero_gradients :: gradients where
  "zero_gradients =
     \<lparr>jac0 = [[0, 0, 0]], jac1 = [[0, 0, 0]], jac2 = [[0, 0, 0]], jac3 = [[0, 0, 0]],
      hes0 = [[0, 0, 0]], hes1 = [[0, 0, 0]], hes2 = [[0, 0, 0]], hes3 = [[0, 0, 0]],
      hes4 = [[0, 0, 0]], hes5 = [[0, 0, 0]], hes6 = [[0, 0, 0]], hes7 = [[0, 0, 0]],
      hes8 = [[0, 0, 0]]\<rparr>"

text \<open>
  A velocity field with du/dx = 1, dv/dy = -1 and dp/dx = -1 at one point, where u = 1 as
  at the previous time step: the four residuals vanish. One boundary whose output channel
  u equals its right-hand side.
\<close>

definition exact_gradients :: gradients where
  "exact_gradients =
     \<lparr>jac0 = [[1, 0, 0]], jac1 = [[0, - 1, 0]], jac2 = [[0, 0, 0]], jac3 = [[- 1, 0, 0]],
      hes0 = [[0, 0, 0]], hes1 = [[0, 0, 0]], hes2 = [[0, 0, 0]], hes3 = [[0, 0, 0]],
      hes4 = [[0, 0, 0]], hes5 = [[0, 0, 0]], hes6 = [[0, 0, 0]], hes7 = [[0, 0, 0]],
      hes8 = [[0, 0, 0]]\<rparr>"

definition exact_inputs_attr :: "(string, (string, unit) dict) dict" where
  "exact_inputs_attr = [(''bc'', [(''wall'', ())])]"

definition exact_labels_bc :: "(string, label list) dict" where
  "exact_labels_bc = [(''wall'', [\<lparr>rhs = Tensor [1, 2], weight = 3\<rparr>])]"

definition exact_labels_attr :: "(string, (string, label list) dict) dict" where
  "exact_labels_attr = [(''bc'', exact_labels_bc)]"

definition exact_pde :: pde_disc where
  "exact_pde = \<lparr>bc = [(''wall'', [\<lparr>name = ''u''\<rparr>])]\<rparr>"

definition exact_outputs_var :: "tensor2 list" where
  "exact_outputs_var = [[[0, 0, 0, 0]], [[1, 0, 0, 0], [2, 0, 0, 0]]]"

text \<open>All spatial coordinates translated by the constant offset \<open>c\<close>.\<close>

definition translate :: "real \<Rightarrow> tensor2 \<Rightarrow> tensor2" where
  "translate c inputs = map (map (\<lambda>x. x + c)) inputs"

subsection \<open>Data-parallel partition\<close>

text \<open>
  \<^verbatim>\<open>a[start:stop]\<close> on a list or on the first axis of an array, for Python integers:
  a negative bound counts from the end, both bounds are clipped to the length, and an empty
  range gives the empty list.
\<close>

definition py_slice :: "'a list \<Rightarrow> int \<Rightarrow> int \<Rightarrow> 'a list" where
  "py_slice xs start stop =
     (let n = int (length xs);
          lo = (if start < 0 then max 0 (start + n) else min start n);
          hi = (if stop < 0 then max 0 (stop + n) else min stop n)
      in take (nat (hi - lo)) (drop (nat lo) xs))"

text \<open>
  \<^verbatim>\<open>
  def data_parallel_partition(data, time_step=0):
      if nranks <= 1:
          return data

      for i in range(len(data)):
          # first & last 3 labels are output from last time step and are already partitioned
          if time_step > 0 and i in [0, 1, 2, 7, 8, 9]:
              continue

          gbsz = data[i].shape[0]
          lbsz = gbsz // nranks
          start = rank * lbsz
          end = (rank + 1) * lbsz
          if rank == nranks - 1:
              end += gbsz % nranks
          data[i] = data[i][start:end]

      return data
  \<close>
  \<open>nranks\<close> and \<open>rank\<close> are module globals read from the distributed runtime; they are
  parameters here. An entry of \<open>data\<close> is the list of its rows. \<open>slice_bounds\<close> is
  the pair (start, end) of one entry, \<open>partition_entry\<close> the new value of that entry; the
  function updates the list in place, index by index, and returns it.
\<close>

definition slice_bounds :: "int \<Rightarrow> int \<Rightarrow> int \<Rightarrow> int \<times> int" where
  "slice_bounds nranks rank gbsz =
     (let lbsz = gbsz div nranks;
          start = rank * lbsz;
          stop = (rank + 1) * lbsz
      in (start, if rank = nranks - 1 then stop + gbsz mod nranks else stop))"

definition partition_entry :: "int \<Rightarrow> int \<Rightarrow> 'a list \<Rightarrow> 'a list" where
  "partition_entry nranks rank d =
     (case slice_bounds nranks rank (int (length d)) of (start, stop) \<Rightarrow> py_slice d start stop)"

definition data_parallel_partition :: "int \<Rightarrow> int \<Rightarrow> 'a list list \<Rightarrow> int \<Rightarrow> 'a list list" where
  "data_parallel_partition nranks rank data time_step =
     (if nranks \<le> 1 then data
      else fold (\<lambda>i data.
                  if time_step > 0 \<and> i \<in> set [0, 1, 2, 7, 8, 9] then data
                  else data[i := partition_entry nranks rank (data ! i)])
             [0..<length data] data)"


text \<open>
  \<^verbatim>\<open>
  def create_inputs_var(inputs):
      inputs_var = []
      for i in range(len(inputs)):

          # data parallel partition
          shape = list(inputs[i].shape)
          if nranks > 1:
              gbsz = inputs[i].shape[0]
              lbsz = gbsz // nranks
              # uneven data partition, last rank would contain more data
              if rank == nranks - 1:
                  lbsz += gbsz % nranks
              shape[0] = lbsz

          input = paddle.static.data(
              name='input' + str(i), shape=shape, dtype='float32')
          input.stop_gradient = False
          inputs_var.append(input)
      return inputs_var

  def create_labels_var(labels, npoints, data_size):
      labels_var = []
      for i in range(len(labels)):
          if i in [0, 1, 2]:
              shape = (npoints, )
          else:
              shape = (data_size, )

          # data parallel partition
          if nranks > 1:
              gbsz = shape[0]
              lbsz = gbsz // nranks
              if rank == nranks - 1:
                  lbsz += gbsz % nranks
              shape = (lbsz, )

          label = paddle.static.data(
              name='label' + str(i), shape=shape, dtype='float32')
          label.stop_gradient = False
          labels_var.append(label)
      return labels_var
  \<close>
  \<open>local_batch_size\<close> is the value of \<open>lbsz\<close> that both functions compute. Of an
  input only the shape is read, so an input is its shape here. A variable declared by
  \<^verbatim>\<open>paddle.static.data\<close> is the record of its name, shape, dtype and
  \<open>stop_gradient\<close> flag; \<open>str\<close> is the decimal numeral of a natural number.
\<close>

definition local_batch_size :: "int \<Rightarrow> int \<Rightarrow> int \<Rightarrow> int" where
  "local_batch_size nranks rank gbsz =
     (let lbsz = gbsz div nranks
      in if rank = nranks - 1 then lbsz + gbsz mod nranks else lbsz)"


definition digit_char :: "nat \<Rightarrow> char" where
  "digit_char d = ''0123456789'' ! d"

function str :: "nat \<Rightarrow> string" where
  "str n = (if n < 10 then [digit_char n] else str (n div 10) @ [digit_char (n mod 10)])"
  by pat_completeness auto
termination
  by (relation "measure id") auto

record static_data =
  data_name :: string
  data_shape :: "int list"
  data_dtype :: string
  stop_gradient :: bool

definition input_var :: "int \<Rightarrow> int \<Rightarrow> nat \<Rightarrow> int list \<Rightarrow> error + static_data" where
  "input_var nranks rank i input_shape =
     bind (if nranks > 1
           then bind (list_item input_shape 0) (\<lambda>gbsz.
                  Inr (input_shape[0 := local_batch_size nranks rank gbsz]))
           else Inr input_shape) (\<lambda>shape.
       Inr \<lparr>data_name = ''input'' @ str i, data_shape = shape, data_dtype = ''float32'',
            stop_gradient = False\<rparr>)"

definition create_inputs_var :: "int \<Rightarrow> int \<Rightarrow> int list list \<Rightarrow> error + static_data list" where
  "create_inputs_var nranks rank inputs =
     for_each (\<lambda>inputs_var (i, input_shape).
         bind (input_var nranks rank i input_shape) (\<lambda>input. Inr (inputs_var @ [input])))
       [] (enumerate 0 inputs)"

definition label_var :: "int \<Rightarrow> int \<Rightarrow> int \<Rightarrow> int \<Rightarrow> nat \<Rightarrow> static_data" where
  "label_var nranks rank npoints data_size i =
     (let shape = (if i \<in> set [0, 1, 2] then [npoints] else [data_size]);
          shape = (if nranks > 1 then [local_batch_size nranks rank (shape ! 0)] else shape)
      in \<lparr>data_name = ''label'' @ str i, data_shape = shape, data_dtype = ''float32'',
           stop_gradient = False\<rparr>)"

definition create_labels_var :: "int \<Rightarrow> int \<Rightarrow> 'a list \<Rightarrow> int \<Rightarrow> int \<Rightarrow> static_data list" where
  "create_labels_var nranks rank labels npoints data_size =
     map (label_var nranks rank npoints data_size) [0..<length labels]"


text \<open>The row indices that the slice bounds assign to a rank.\<close>

definition rank_rows :: "int \<Rightarrow> int \<Rightarrow> int \<Rightarrow> int set" where
  "rank_rows nranks rank gbsz =
     {fst (slice_bounds nranks rank gbsz) ..< snd (slice_bounds nranks rank gbsz)}"

text \<open>
  What the two functions declare, said directly: the i-th input is named input followed by
  i and has the shape of the i-th input, on more than one rank with its first dimension
  replaced by the local batch size; the i-th label is named label followed by i and has one
  dimension, npoints for the first three labels and data_size for the others, on more than
  one rank replaced by its local batch size.
\<close>

definition declared_input :: "int \<Rightarrow> int \<Rightarrow> int list list \<Rightarrow> nat \<Rightarrow> static_data" where
  "declared_input n r inputs i =
     \<lparr>data_name = ''input'' @ str i,
      data_shape = (if 1 < n then local_batch_size n r (inputs ! i ! 0) # tl (inputs ! i)
                    else inputs ! i),
      data_dtype = ''float32'', stop_gradient = False\<rparr>"

definition declared_label :: "int \<Rightarrow> int \<Rightarrow> int \<Rightarrow> int \<Rightarrow> nat \<Rightarrow> static_data" where
  "declared_label n r npoints data_size i =
     \<lparr>data_name = ''label'' @ str i,
      data_shape = (if 1 < n
                    then [local_batch_size n r (if i \<in> {0, 1, 2} then npoints else data_size)]
                    else [if i \<in> {0, 1, 2} then npoints else data_size]),
      data_dtype = ''float32'', stop_gradient = False\<rparr>"

text \<open>A list of nine entries of different lengths.\<close>

definition ex_data :: "int list list" where
  "ex_data = [[0, 1, 2, 3, 4, 5, 6], [10, 11], [20, 21, 22], [30, 31, 32, 33], [], [50, 51, 52],
              [60], [70, 71, 72, 73, 74, 75], [80, 81, 82]]"

subsection \<open>Names outside the channel mapping\<close>









subsection \<open>Fields and their derivatives\<close>

text \<open>
  A field given as a differentiable function of the spatial coordinates: a scalar function
  of x, y, z together with its first and second partial derivatives. \<open>partials f fx fy fz\<close>
  says that \<open>fx\<close>, \<open>fy\<close>, \<open>fz\<close> are the partial derivatives of \<open>f\<close> everywhere.
  The network evaluates u, v, w and p at every input point, and the differentiation of the
  engine returns, row by row, the partial derivatives at that point: \<open>jac0\<close> those of u,
  \<open>hes0\<close> those of du/dx, and so on as the source binds them. \<open>shift c f\<close> is the same
  field seen from coordinates translated by \<open>c\<close>.
\<close>

type_synonym scalar_field = "real \<Rightarrow> real \<Rightarrow> real \<Rightarrow> real"

definition partials :: "scalar_field \<Rightarrow> scalar_field \<Rightarrow> scalar_field \<Rightarrow> scalar_field \<Rightarrow> bool" where
  "partials f fx fy fz =
     (\<forall>x y z. ((\<lambda>t. f t y z) has_field_derivative fx x y z) (at x)
            \<and> ((\<lambda>t. f x t z) has_field_derivative fy x y z) (at y)
            \<and> ((\<lambda>t. f x y t) has_field_derivative fz x y z) (at z))"

record field =
  val :: scalar_field
  d_x :: scalar_field
  d_y :: scalar_field
  d_z :: scalar_field
  d_xx :: scalar_field
  d_xy :: scalar_field
  d_xz :: scalar_field
  d_yx :: scalar_field
  d_yy :: scalar_field
  d_yz :: scalar_field
  d_zx :: scalar_field
  d_zy :: scalar_field
  d_zz :: scalar_field

definition twice_differentiable :: "field \<Rightarrow> bool" where
  "twice_differentiable F =
     (partials (val F) (d_x F) (d_y F) (d_z F)
      \<and> partials (d_x F) (d_xx F) (d_xy F) (d_xz F)
      \<and> partials (d_y F) (d_yx F) (d_yy F) (d_yz F)
      \<and> partials (d_z F) (d_zx F) (d_zy F) (d_zz F))"

definition at_row :: "scalar_field \<Rightarrow> real list \<Rightarrow> real" where
  "at_row f row = f (row ! 0) (row ! 1) (row ! 2)"

definition gradient_rows :: "scalar_field \<Rightarrow> scalar_field \<Rightarrow> scalar_field \<Rightarrow> tensor2 \<Rightarrow> tensor2" where
  "gradient_rows fx fy fz pts = map (\<lambda>row. [at_row fx row, at_row fy row, at_row fz row]) pts"

definition network_outputs :: "field \<Rightarrow> field \<Rightarrow> field \<Rightarrow> field \<Rightarrow> tensor2 \<Rightarrow> tensor2" where
  "network_outputs U V W P pts =
     map (\<lambda>row. [at_row (val U) row, at_row (val V) row, at_row (val W) row, at_row (val P) row])
       pts"

definition engine_gradients :: "field \<Rightarrow> field \<Rightarrow> field \<Rightarrow> field \<Rightarrow> tensor2 \<Rightarrow> gradients" where
  "engine_gradients U V W P pts =
     \<lparr>jac0 = gradient_rows (d_x U) (d_y U) (d_z U) pts,
      jac1 = gradient_rows (d_x V) (d_y V) (d_z V) pts,
      jac2 = gradient_rows (d_x W) (d_y W) (d_z W) pts,
      jac3 = gradient_rows (d_x P) (d_y P) (d_z P) pts,
      hes0 = gradient_rows (d_xx U) (d_xy U) (d_xz U) pts,
      hes1 = gradient_rows (d_yx U) (d_yy U) (d_yz U) pts,
      hes2 = gradient_rows (d_zx U) (d_zy U) (d_zz U) pts,
      hes3 = gradient_rows (d_xx V) (d_xy V) (d_xz V) pts,
      hes4 = gradient_rows (d_yx V) (d_yy V) (d_yz V) pts,
      hes5 = gradient_rows (d_zx V) (d_zy V) (d_zz V) pts,
      hes6 = gradient_rows (d_xx W) (d_xy W) (d_xz W) pts,
      hes7 = gradient_rows (d_yx W) (d_yy W) (d_yz W) pts,
      hes8 = gradient_rows (d_zx W) (d_zy W) (d_zz W) pts\<rparr>"

definition shift :: "real \<Rightarrow> scalar_field \<Rightarrow> scalar_field" where
  "shift c f = (\<lambda>x y z. f (x - c) (y - c) (z - c))"

definition shift_field :: "real \<Rightarrow> field \<Rightarrow> field" where
  "shift_field c F =
     \<lparr>val = shift c (val F), d_x = shift c (d_x F), d_y = shift c (d_y F), d_z = shift c (d_z F),
      d_xx = shift c (d_xx F), d_xy = shift c (d_xy F), d_xz = shift c (d_xz F),
      d_yx = shift c (d_yx F), d_yy = shift c (d_yy F), d_yz = shift c (d_yz F),
      d_zx = shift c (d_zx F), d_zy = shift c (d_zy F), d_zz = shift c (d_zz F)\<rparr>"

text \<open>The fields u = x * x, v = y, w = 0 and p = z.\<close>

definition zero_field :: field where
  "zero_field =
     \<lparr>val = (\<lambda>x y z. 0), d_x = (\<lambda>x y z. 0), d_y = (\<lambda>x y z. 0), d_z = (\<lambda>x y z. 0),
      d_xx = (\<lambda>x y z. 0), d_xy = (\<lambda>x y z. 0), d_xz = (\<lambda>x y z. 0),
      d_yx = (\<lambda>x y z. 0), d_yy = (\<lambda>x y z. 0), d_yz = (\<lambda>x y z. 0),
      d_zx = (\<lambda>x y z. 0), d_zy = (\<lambda>x y z. 0), d_zz = (\<lambda>x y z. 0)\<rparr>"

definition ex_U :: field where
  "ex_U = zero_field\<lparr>val := (\<lambda>x y z. x * x), d_x := (\<lambda>x y z. 2 * x), d_xx := (\<lambda>x y z. 2)\<rparr>"

definition ex_V :: field where
  "ex_V = zero_field\<lparr>val := (\<lambda>x y z. y), d_y := (\<lambda>x y z. 1)\<rparr>"

definition ex_P :: field where
  "ex_P = zero_field\<lparr>val := (\<lambda>x y z. z), d_z := (\<lambda>x y z. 1)\<rparr>"

section \<open>Properties\<close>

subsection \<open>The squared norm\<close>

lemma sum_squares_nonneg: "0 \<le> sum_squares x"
  unfolding sum_squares_def by (induction x) simp_all

lemma paddle_norm_square: "paddle_norm x * paddle_norm x = sum_squares x"
  unfolding paddle_norm_def using sum_squares_nonneg [of x] by simp

lemma sum_squares_scale: "sum_squares (scale_tensor x c) = c * c * sum_squares x"
  unfolding sum_squares_def scale_tensor_def
  by (induction x) (simp_all add: algebra_simps)

lemma l2_norm_square_None: "l2_norm_square x None = sum_squares x"
  by (simp add: l2_norm_square_def paddle_norm_square)

lemma l2_norm_square_Some:
  assumes "s \<noteq> 0"
  shows "l2_norm_square x (Some s) = sum_squares x"
proof -
  have "l2_norm_square x (Some s)
        = (paddle_norm (scale_tensor x s) * paddle_norm (scale_tensor x s)) / (s * s)"
    by (simp add: l2_norm_square_def)
  also have "\<dots> = (s * s * sum_squares x) / (s * s)"
    by (simp only: paddle_norm_square sum_squares_scale)
  also have "\<dots> = sum_squares x"
    using assms by simp
  finally show ?thesis .
qed

lemma l2_norm_square_nonneg: "0 \<le> l2_norm_square x scale"
  by (simp add: l2_norm_square_def Let_def)

text \<open>
  Claim C3. Without a scale, l2_norm_square of a tensor is the sum of the squares of its
  elements; with any nonzero scale it returns the same value as without one.
\<close>

theorem l2_norm_square_sum_of_squares_scale_invariant:
  "l2_norm_square x None = sum_list (map (\<lambda>v. v\<^sup>2) x)
   \<and> (s \<noteq> 0 \<longrightarrow> l2_norm_square x (Some s) = l2_norm_square x None)"
  by (simp add: l2_norm_square_None l2_norm_square_Some sum_squares_def power2_eq_square)

theorem l2_norm_square_sum_of_squares_scale_invariant_witness:
  "(10000::real) \<noteq> 0
   \<and> l2_norm_square [3, 4] None = 25
   \<and> l2_norm_square [3, 4] (Some 10000) = l2_norm_square [3, 4] None"
  using l2_norm_square_sum_of_squares_scale_invariant [of "[3, 4]" 10000] by simp


subsection \<open>Results and loops\<close>

lemma bind_eq_Inr: "bind m f = Inr r \<longleftrightarrow> (\<exists>x. m = Inr x \<and> f x = Inr r)"
  by (cases m) (simp_all add: bind_def)

lemma bind_Inl: "bind (Inl e) f = Inl e"
  by (simp add: bind_def)

lemma bind_Inr: "bind (Inr x) f = f x"
  by (simp add: bind_def)

lemma dict_item_eq_Inr: "dict_item d k = Inr v \<longleftrightarrow> map_of d k = Some v"
  by (simp add: dict_item_def split: option.splits)

lemma list_item_eq_Inr: "list_item xs i = Inr v \<longleftrightarrow> i < length xs \<and> v = xs ! i"
  by (auto simp add: list_item_def)

lemma for_each_add:
  assumes "for_each body s xs = Inr r"
    and "\<And>a x a'. x \<in> set xs \<Longrightarrow> body a x = Inr a' \<Longrightarrow> a' = a + g x"
  shows "r = s + sum_list (map g xs)"
  using assms
proof (induction xs arbitrary: s)
  case Nil
  then show ?case by simp
next
  case (Cons x xs)
  from Cons.prems(1) obtain s' where step: "body s x = Inr s'" and rest: "for_each body s' xs = Inr r"
    by (auto split: sum.splits)
  have "s' = s + g x" using Cons.prems(2) [of x s s'] step by simp
  moreover have "r = s' + sum_list (map g xs)"
    using Cons.IH [OF rest] Cons.prems(2) by simp
  ultimately show ?case by (simp add: add.assoc)
qed

lemma for_each_invariant:
  assumes "for_each body s xs = Inr r" and "P s"
    and "\<And>a x a'. x \<in> set xs \<Longrightarrow> P a \<Longrightarrow> body a x = Inr a' \<Longrightarrow> P a'"
  shows "P r"
  using assms
proof (induction xs arbitrary: s)
  case Nil
  then show ?case by simp
next
  case (Cons x xs)
  from Cons.prems(1) obtain s' where step: "body s x = Inr s'" and rest: "for_each body s' xs = Inr r"
    by (auto split: sum.splits)
  have "P s'" using Cons.prems(3) [of x s s'] Cons.prems(2) step by simp
  then show ?case
  proof (rule Cons.IH [OF rest])
    fix a y a'
    assume "y \<in> set xs" "P a" "body a y = Inr a'"
    then show "P a'" using Cons.prems(3) [of y a a'] by simp
  qed
qed

lemma sum_squares_scale_sqrt:
  "0 \<le> w \<Longrightarrow> sum_squares (scale_tensor d (np_sqrt w)) = w * sum_squares d"
  by (simp add: sum_squares_scale np_sqrt_def)

lemma bc_term_eq_Inr:
  "bc_term E out_el index rhs_b wgt_b = Inr t \<longleftrightarrow>
     (\<exists>col diff. getitem_column E out_el index = Inr col \<and> tensor_sub col rhs_b = Inr diff
        \<and> t = sum_squares (scale_tensor diff (np_sqrt wgt_b)))"
  by (auto simp add: bc_term_def bind_eq_Inr l2_norm_square_Some)

lemma name2index_valid:
  "n \<in> {''u'', ''v'', ''w'', ''p''} \<Longrightarrow>
   dict_get name2index n = Some (if n = ''u'' then 0 else if n = ''v'' then 1 else if n = ''w'' then 2 else 3)"
  by (auto simp add: dict_get_def name2index_def)


subsection \<open>The boundary loss\<close>

lemma elementwise_index:
  assumes "elementwise f a b = Inr d"
  shows "d = map (\<lambda>i. f (a ! (if length a = 1 then 0 else i)) (b ! (if length b = 1 then 0 else i)))
               [0..<(if length a = 1 then length b else length a)]"
proof (cases "length a = length b")
  case True
  with assms have d: "d = map2 f a b" by (simp add: elementwise_def)
  show ?thesis unfolding d using True by (intro nth_equalityI) auto
next
  case False
  show ?thesis
  proof (cases "length b = 1")
    case True
    with False assms have d: "d = map (\<lambda>x. f x (hd b)) a" by (simp add: elementwise_def)
    from True have "hd b = b ! 0" by (cases b) simp_all
    then show ?thesis unfolding d using True False by (intro nth_equalityI) auto
  next
    case b: False
    with False assms have a1: "length a = 1" and d: "d = map (\<lambda>y. f (hd a) y) b"
      by (simp_all add: elementwise_def split: if_splits)
    from a1 have "hd a = a ! 0" by (cases a) simp_all
    then show ?thesis unfolding d using a1 b by (intro nth_equalityI) auto
  qed
qed

lemma tensor_sub_difference:
  assumes "tensor_sub col target = Inr d"
  shows "d = difference col target"
proof (cases target)
  case (Scalar c)
  with assms have "d = map (\<lambda>x. x - c) col" by (simp add: tensor_sub_def)
  then show ?thesis unfolding Scalar by (simp add: difference_def) (intro nth_equalityI, auto)
next
  case (Tensor t)
  with assms have "elementwise (-) col t = Inr d" by (simp add: tensor_sub_def)
  then show ?thesis unfolding Tensor difference_def operand.case by (rule elementwise_index)
qed

lemma tensor_sub_accepts:
  assumes "case target of Scalar r \<Rightarrow> True
           | Tensor t \<Rightarrow> length t = length col \<or> length t = 1 \<or> length col = 1"
  shows "\<exists>d. tensor_sub col target = Inr d"
  using assms by (cases target) (auto simp add: tensor_sub_def elementwise_def)

lemma bc_inner_value:
  assumes ok: "bc_inner E labels_attr pde name_b out_el a j = Inr a'"
    and lab: "map_of labels_attr ''bc'' = Some labels_bc"
    and names: "valid_names pde" and weights: "nonneg_weights labels_bc"
  shows "a' = a + weighted_deviation out_el (the (map_of (bc pde) name_b) ! j)
                    (the (map_of labels_bc name_b) ! j)"
proof -
  from ok lab obtain labels_b bc_b t where
    lb: "map_of labels_bc name_b = Some labels_b" and jl: "j < length labels_b" and
    bb: "map_of (bc pde) name_b = Some bc_b" and jb: "j < length bc_b" and
    t: "bc_term E out_el (dict_get name2index (name (bc_b ! j))) (rhs (labels_b ! j))
          (weight (labels_b ! j)) = Inr t" and
    a': "a' = a + t"
    by (auto simp add: bc_inner_def bind_eq_Inr dict_item_eq_Inr list_item_eq_Inr Let_def)
  have "(name_b, bc_b) \<in> set (bc pde)" using bb by (rule map_of_SomeD)
  moreover have "bc_b ! j \<in> set bc_b" using jb by simp
  ultimately have nm: "name (bc_b ! j) \<in> {''u'', ''v'', ''w'', ''p''}"
    using names by (auto simp add: valid_names_def list_all_iff)
  have "(name_b, labels_b) \<in> set labels_bc" using lb by (rule map_of_SomeD)
  moreover have "labels_b ! j \<in> set labels_b" using jl by simp
  ultimately have w: "0 \<le> weight (labels_b ! j)"
    using weights by (auto simp add: nonneg_weights_def list_all_iff)
  have idx: "dict_get name2index (name (bc_b ! j)) = Some (channel (name (bc_b ! j)))"
    using name2index_valid [OF nm] by (simp add: channel_def)
  from t obtain col diff where
    col: "column out_el (channel (name (bc_b ! j))) = Inr col" and
    diff: "tensor_sub col (rhs (labels_b ! j)) = Inr diff" and
    tv: "t = sum_squares (scale_tensor diff (np_sqrt (weight (labels_b ! j))))"
    by (auto simp add: bc_term_eq_Inr idx getitem_column_def)
  have "col = map (\<lambda>row. row ! channel (name (bc_b ! j))) out_el"
    using col by (auto simp add: column_def split: if_splits)
  then have "t = weighted_deviation out_el (bc_b ! j) (labels_b ! j)"
    using tensor_sub_difference [OF diff] tv w
    by (simp add: weighted_deviation_def deviation_def sum_squares_scale_sqrt)
  then show ?thesis using a' lb bb by simp
qed

lemma bc_outer_value:
  assumes ok: "bc_outer E labels_attr outputs_var pde a (i, name_b) = Inr a'"
    and lab: "map_of labels_attr ''bc'' = Some labels_bc"
    and names: "valid_names pde" and weights: "nonneg_weights labels_bc"
  shows "a' = a + (\<Sum>j \<leftarrow> [0..<length (the (map_of (bc pde) name_b))].
          weighted_deviation (outputs_var ! (i + 1)) (the (map_of (bc pde) name_b) ! j)
            (the (map_of labels_bc name_b) ! j))"
proof -
  from ok obtain bc_b where
    i: "i + 1 < length outputs_var" and bb: "map_of (bc pde) name_b = Some bc_b" and
    loop: "for_each (bc_inner E labels_attr pde name_b (outputs_var ! (i + 1))) a
             [0..<length bc_b] = Inr a'"
    by (auto simp add: bc_outer_def bind_eq_Inr dict_item_eq_Inr list_item_eq_Inr)
  show ?thesis
    unfolding bb option.sel
  proof (rule for_each_add [OF loop])
    fix b j b'
    assume "bc_inner E labels_attr pde name_b (outputs_var ! (i + 1)) b j = Inr b'"
    then show "b' = b + weighted_deviation (outputs_var ! (i + 1)) (bc_b ! j)
                         (the (map_of labels_bc name_b) ! j)"
      using bc_inner_value [OF _ lab names weights] bb by fastforce
  qed
qed

lemma compute_bc_loss_value:
  assumes ok: "compute_bc_loss E inputs_attr labels_attr outputs_var pde = Inr r"
    and inp: "map_of inputs_attr ''bc'' = Some inputs_bc"
    and lab: "map_of labels_attr ''bc'' = Some labels_bc"
    and names: "valid_names pde" and weights: "nonneg_weights labels_bc"
  shows "r = bc_loss_sum (keys inputs_bc) labels_bc outputs_var pde"
proof -
  from ok inp have loop:
    "for_each (bc_outer E labels_attr outputs_var pde) 0 (enumerate 0 (keys inputs_bc)) = Inr r"
    by (simp add: compute_bc_loss_def bind_eq_Inr dict_item_eq_Inr)
  have "r = 0 + (\<Sum>(i, name_b) \<leftarrow> enumerate 0 (keys inputs_bc).
        \<Sum>j \<leftarrow> [0..<length (the (map_of (bc pde) name_b))].
          weighted_deviation (outputs_var ! (i + 1)) (the (map_of (bc pde) name_b) ! j)
            (the (map_of labels_bc name_b) ! j))"
  proof (rule for_each_add [OF loop])
    fix a x a'
    assume "bc_outer E labels_attr outputs_var pde a x = Inr a'"
    then show "a' = a + (case x of (i, name_b) \<Rightarrow>
        \<Sum>j \<leftarrow> [0..<length (the (map_of (bc pde) name_b))].
          weighted_deviation (outputs_var ! (i + 1)) (the (map_of (bc pde) name_b) ! j)
            (the (map_of labels_bc name_b) ! j))"
      using bc_outer_value [OF _ lab names weights] by (cases x) simp
  qed
  then show ?thesis by (simp add: bc_loss_sum_def)
qed

lemma for_each_returns_sum:
  assumes "\<And>a x. x \<in> set xs \<Longrightarrow> body a x = Inr (a + g x)"
  shows "for_each body s xs = Inr (s + sum_list (map g xs))"
  using assms
proof (induction xs arbitrary: s)
  case Nil
  then show ?case by simp
next
  case (Cons x xs)
  have "body s x = Inr (s + g x)" using Cons.prems by simp
  moreover have "for_each body (s + g x) xs = Inr (s + g x + sum_list (map g xs))"
    using Cons.prems by (intro Cons.IH) simp
  ultimately show ?case by (simp add: add.assoc)
qed

lemma bc_term_matches:
  assumes "sub_condition_matches out_el c l"
  shows "bc_term E out_el (dict_get name2index (name c)) (rhs l) (weight l)
         = Inr (weighted_deviation out_el c l)"
proof -
  from assms have nm: "name c \<in> {''u'', ''v'', ''w'', ''p''}" and w: "0 \<le> weight l"
    and rows: "list_all (\<lambda>row. channel (name c) < length row) out_el"
    and fits: "case rhs l of Scalar r \<Rightarrow> True
               | Tensor t \<Rightarrow> length t = length out_el \<or> length t = 1 \<or> length out_el = 1"
    by (simp_all add: sub_condition_matches_def)
  define col where "col = map (\<lambda>row. row ! channel (name c)) out_el"
  have col: "column out_el (channel (name c)) = Inr col"
    using rows by (simp add: column_def col_def)
  have "case rhs l of Scalar r \<Rightarrow> True
        | Tensor t \<Rightarrow> length t = length col \<or> length t = 1 \<or> length col = 1"
    using fits by (cases "rhs l") (simp_all add: col_def)
  then obtain diff where diff: "tensor_sub col (rhs l) = Inr diff"
    using tensor_sub_accepts by blast
  have idx: "dict_get name2index (name c) = Some (channel (name c))"
    using name2index_valid [OF nm] by (simp add: channel_def)
  have "weighted_deviation out_el c l = sum_squares (scale_tensor diff (np_sqrt (weight l)))"
    using tensor_sub_difference [OF diff] w
    by (simp add: weighted_deviation_def deviation_def sum_squares_scale_sqrt col_def)
  then show ?thesis
    using col diff by (simp add: bc_term_eq_Inr idx getitem_column_def)
qed

lemma bc_outer_matches:
  assumes lab: "map_of labels_attr ''bc'' = Some labels_bc"
    and m: "boundary_matches labels_bc outputs_var pde (i, name_b)"
  shows "bc_outer E labels_attr outputs_var pde a (i, name_b)
         = Inr (a + (\<Sum>j \<leftarrow> [0..<length (the (map_of (bc pde) name_b))].
                  weighted_deviation (outputs_var ! (i + 1)) (the (map_of (bc pde) name_b) ! j)
                    (the (map_of labels_bc name_b) ! j)))"
proof -
  from m obtain bc_b labels_b where
    i: "i + 1 < length outputs_var" and bb: "map_of (bc pde) name_b = Some bc_b" and
    lb: "map_of labels_bc name_b = Some labels_b" and len: "length bc_b \<le> length labels_b" and
    subs: "\<And>j. j < length bc_b \<Longrightarrow>
             sub_condition_matches (outputs_var ! (i + 1)) (bc_b ! j) (labels_b ! j)"
    by (auto simp add: boundary_matches_def list_all_iff split: option.splits)
  have "for_each (bc_inner E labels_attr pde name_b (outputs_var ! (i + 1))) a [0..<length bc_b]
        = Inr (a + (\<Sum>j \<leftarrow> [0..<length bc_b].
                 weighted_deviation (outputs_var ! (i + 1)) (bc_b ! j) (labels_b ! j)))"
  proof (rule for_each_returns_sum)
    fix b j assume "j \<in> set [0..<length bc_b]"
    then have j: "j < length bc_b" by simp
    then have jl: "j < length labels_b" using len by simp
    show "bc_inner E labels_attr pde name_b (outputs_var ! (i + 1)) b j
          = Inr (b + weighted_deviation (outputs_var ! (i + 1)) (bc_b ! j) (labels_b ! j))"
      using lab lb bb j jl bc_term_matches [OF subs [OF j], of E]
      by (simp add: bc_inner_def bind_def dict_item_def list_item_def)
  qed
  then show ?thesis
    using i bb lb by (simp add: bc_outer_def bind_def dict_item_def list_item_def)
qed

lemma compute_bc_loss_matches:
  assumes inp: "map_of inputs_attr ''bc'' = Some inputs_bc"
    and lab: "map_of labels_attr ''bc'' = Some labels_bc"
    and m: "records_match (keys inputs_bc) labels_bc outputs_var pde"
  shows "compute_bc_loss E inputs_attr labels_attr outputs_var pde
         = Inr (bc_loss_sum (keys inputs_bc) labels_bc outputs_var pde)"
proof -
  have "for_each (bc_outer E labels_attr outputs_var pde) 0 (enumerate 0 (keys inputs_bc))
        = Inr (0 + (\<Sum>(i, name_b) \<leftarrow> enumerate 0 (keys inputs_bc).
                 \<Sum>j \<leftarrow> [0..<length (the (map_of (bc pde) name_b))].
                   weighted_deviation (outputs_var ! (i + 1)) (the (map_of (bc pde) name_b) ! j)
                     (the (map_of labels_bc name_b) ! j)))"
  proof (rule for_each_returns_sum)
    fix a x assume x: "x \<in> set (enumerate 0 (keys inputs_bc))"
    obtain i name_b where ib: "x = (i, name_b)" by (cases x)
    have "boundary_matches labels_bc outputs_var pde (i, name_b)"
      using m x ib by (simp add: records_match_def list_all_iff)
    then show "bc_outer E labels_attr outputs_var pde a x
          = Inr (a + (case x of (i, name_b) \<Rightarrow>
                 \<Sum>j \<leftarrow> [0..<length (the (map_of (bc pde) name_b))].
                   weighted_deviation (outputs_var ! (i + 1)) (the (map_of (bc pde) name_b) ! j)
                     (the (map_of labels_bc name_b) ! j)))"
      using bc_outer_matches [OF lab, of outputs_var pde i name_b E a] by (simp add: ib)
  qed
  then show ?thesis
    using inp by (simp add: compute_bc_loss_def bind_def dict_item_def bc_loss_sum_def)
qed

text \<open>
  Claim C2. For label records that match the boundary metadata compute_bc_loss returns the
  sum, over the boundaries (the i-th reading the output tensor i + 1) and their
  sub-conditions, of the weight times the squared L2 norm of the selected output channel
  minus the right-hand side; the scale constant 10000 of the computation cancels. And
  whenever it returns at all, with every sub-condition named u, v, w or p and every weight
  non-negative, the value returned is that sum.
\<close>

theorem compute_bc_loss_sum:
  fixes inputs_attr :: "(string, (string, 'a) dict) dict"
  assumes "map_of inputs_attr ''bc'' = Some inputs_bc"
    and "map_of labels_attr ''bc'' = Some labels_bc"
  shows "(records_match (keys inputs_bc) labels_bc outputs_var pde \<longrightarrow>
            compute_bc_loss E inputs_attr labels_attr outputs_var pde
              = Inr (bc_loss_sum (keys inputs_bc) labels_bc outputs_var pde))
         \<and> (compute_bc_loss E inputs_attr labels_attr outputs_var pde = Inr r
              \<and> valid_names pde \<and> nonneg_weights labels_bc \<longrightarrow>
            r = bc_loss_sum (keys inputs_bc) labels_bc outputs_var pde)"
  using compute_bc_loss_matches [OF assms, of outputs_var pde E]
    compute_bc_loss_value [OF _ assms, of E outputs_var pde r] by blast

lemmas ex_defs =
  ex_inputs_attr_def ex_labels_attr_def ex_labels_bc_def ex_pde_def ex_outputs_var_def
  engine_refuses_def

lemmas eval_defs =
  compute_bc_loss_def bind_def dict_item_def keys_def enumerate_eq_zip bc_outer_def
  list_item_def upt_rec bc_inner_def dict_get_def name2index_def bc_term_def
  getitem_column_def column_def tensor_sub_def elementwise_def l2_norm_square_Some
  sum_squares_def scale_tensor_def np_sqrt_def

lemma ex_compute_bc_loss:
  "compute_bc_loss engine_refuses ex_inputs_attr (ex_labels_attr 1) ex_outputs_var ex_pde = Inr 29"
  by (simp add: ex_defs eval_defs)

lemmas pin_defs =
  pin_inputs_attr_def pin_labels_attr_def pin_labels_bc_def pin_pde_def pin_outputs_var_def
  engine_refuses_def

theorem compute_bc_loss_sum_witness:
  "map_of pin_inputs_attr ''bc'' = Some [(''wall'', ()), (''inlet'', ())]
   \<and> map_of pin_labels_attr ''bc'' = Some pin_labels_bc
   \<and> records_match (keys [(''wall'', ()), (''inlet'', ())]) pin_labels_bc pin_outputs_var pin_pde
   \<and> valid_names pin_pde \<and> nonneg_weights pin_labels_bc
   \<and> bc_loss_sum (keys [(''wall'', ()), (''inlet'', ())]) pin_labels_bc pin_outputs_var pin_pde
       = 2 * ((1 - 3)\<^sup>2 + (2 - 3)\<^sup>2) + 1 * ((7 - 5)\<^sup>2 + (9 - 10)\<^sup>2)
         + 4 * ((1 - 1)\<^sup>2 + (2 - 1)\<^sup>2)
   \<and> compute_bc_loss engine_refuses pin_inputs_attr pin_labels_attr pin_outputs_var pin_pde
       = Inr (bc_loss_sum (keys [(''wall'', ()), (''inlet'', ())]) pin_labels_bc pin_outputs_var
                pin_pde)
   \<and> compute_bc_loss engine_refuses pin_inputs_attr pin_labels_attr pin_outputs_var pin_pde
       = Inr 19"
proof -
  have inp: "map_of pin_inputs_attr ''bc'' = Some [(''wall'', ()), (''inlet'', ())]"
    by (simp add: pin_inputs_attr_def)
  have lab: "map_of pin_labels_attr ''bc'' = Some pin_labels_bc"
    by (simp add: pin_labels_attr_def)
  have names: "valid_names pin_pde"
    by (simp add: valid_names_def pin_pde_def)
  have weights: "nonneg_weights pin_labels_bc"
    by (simp add: nonneg_weights_def pin_labels_bc_def)
  have match: "records_match (keys [(''wall'', ()), (''inlet'', ())]) pin_labels_bc
                 pin_outputs_var pin_pde"
    by (simp add: records_match_def boundary_matches_def sub_condition_matches_def keys_def
        enumerate_eq_zip upt_rec pin_defs channel_def)
  have spec: "bc_loss_sum (keys [(''wall'', ()), (''inlet'', ())]) pin_labels_bc pin_outputs_var
                pin_pde
       = 2 * ((1 - 3)\<^sup>2 + (2 - 3)\<^sup>2) + 1 * ((7 - 5)\<^sup>2 + (9 - 10)\<^sup>2)
         + 4 * ((1 - 1)\<^sup>2 + (2 - 1)\<^sup>2)"
    by (simp add: bc_loss_sum_def weighted_deviation_def deviation_def difference_def
        sum_squares_def keys_def enumerate_eq_zip upt_rec pin_defs channel_def)
  have code: "compute_bc_loss engine_refuses pin_inputs_attr pin_labels_attr pin_outputs_var
                pin_pde = Inr 19"
    by (simp add: pin_defs eval_defs)
  have returned: "compute_bc_loss engine_refuses pin_inputs_attr pin_labels_attr pin_outputs_var
      pin_pde = Inr (bc_loss_sum (keys [(''wall'', ()), (''inlet'', ())]) pin_labels_bc
                      pin_outputs_var pin_pde)"
    using compute_bc_loss_sum [OF inp lab, of pin_outputs_var pin_pde engine_refuses 19,
        THEN conjunct1] match by simp
  show ?thesis by (intro conjI inp lab match names weights spec returned code)
qed


text \<open>
  Claim C4, as amended. Doubling the weight of a sub-condition doubles its summand: the
  weight enters as a square root inside a squared norm, so the summand is linear in it.
\<close>

theorem doubling_weight_doubles_term:
  assumes "0 \<le> wgt_b" and "bc_term E out_el index rhs_b wgt_b = Inr t"
  shows "bc_term E out_el index rhs_b (2 * wgt_b) = Inr (2 * t)"
  using assms by (auto simp add: bc_term_eq_Inr sum_squares_scale_sqrt)

theorem doubling_weight_doubles_term_witness:
  "(0::real) \<le> 1
   \<and> bc_term engine_refuses [[1, 0, 0, 0], [2, 0, 0, 0]] (Some 0) (Scalar 0) 1 = Inr 5
   \<and> bc_term engine_refuses [[1, 0, 0, 0], [2, 0, 0, 0]] (Some 0) (Scalar 0) (2 * 1) = Inr (2 * 5)"
proof -
  have w: "(0::real) \<le> 1" by simp
  have t: "bc_term engine_refuses [[1, 0, 0, 0], [2, 0, 0, 0]] (Some 0) (Scalar 0) 1 = Inr 5"
    by (simp add: ex_defs eval_defs)
  show ?thesis using w t doubling_weight_doubles_term [OF w t] by simp
qed

text \<open>
  Claim C4 as stated fails: with the weight of the first boundary doubled from 1 to 2, its
  summand goes from 5 to 10 and the loss from 29 to 34; four times the summand would be 20.
\<close>

theorem doubling_weight_quadruples_counterexample:
  "bc_term engine_refuses [[1, 0, 0, 0], [2, 0, 0, 0]] (Some 0) (Scalar 0) 1 = Inr 5
   \<and> bc_term engine_refuses [[1, 0, 0, 0], [2, 0, 0, 0]] (Some 0) (Scalar 0) (2 * 1) = Inr 10
   \<and> compute_bc_loss engine_refuses ex_inputs_attr (ex_labels_attr 1) ex_outputs_var ex_pde
       = Inr (5 + 24)
   \<and> compute_bc_loss engine_refuses ex_inputs_attr (ex_labels_attr (2 * 1)) ex_outputs_var ex_pde
       = Inr (10 + 24)
   \<and> (10::real) \<noteq> 4 * 5"
  by (simp add: ex_defs eval_defs)

subsection \<open>Non-negative losses\<close>

lemma bc_term_nonneg: "bc_term E out_el index rhs_b wgt_b = Inr t \<Longrightarrow> 0 \<le> t"
  by (auto simp add: bc_term_def bind_eq_Inr l2_norm_square_nonneg)

lemma bc_inner_nonneg:
  "bc_inner E labels_attr pde name_b out_el a j = Inr a' \<Longrightarrow> 0 \<le> a \<Longrightarrow> 0 \<le> a'"
  by (auto simp add: bc_inner_def bind_eq_Inr Let_def dest: bc_term_nonneg)

lemma bc_outer_nonneg:
  assumes "bc_outer E labels_attr outputs_var pde a ib = Inr a'" and "0 \<le> a"
  shows "0 \<le> a'"
proof -
  obtain i name_b where ib: "ib = (i, name_b)" by (cases ib)
  from assms(1) obtain out_el and bc_b :: "boundary_condition list" where
    "for_each (bc_inner E labels_attr pde name_b out_el) a [0..<length bc_b] = Inr a'"
    by (auto simp add: ib bc_outer_def bind_eq_Inr)
  then show ?thesis
    using assms(2) by (rule for_each_invariant) (rule bc_inner_nonneg)
qed

lemma compute_bc_loss_nonneg:
  fixes inputs_attr :: "(string, (string, 'a) dict) dict"
  assumes "compute_bc_loss E inputs_attr labels_attr outputs_var pde = Inr r"
  shows "0 \<le> r"
proof -
  from assms obtain inputs_bc :: "(string, 'a) dict" where
    "for_each (bc_outer E labels_attr outputs_var pde) 0 (enumerate 0 (keys inputs_bc)) = Inr r"
    by (auto simp add: compute_bc_loss_def bind_eq_Inr)
  then show ?thesis
    by (rule for_each_invariant) (simp, rule bc_outer_nonneg)
qed

lemma compute_eq_loss_nonneg:
  assumes "compute_eq_loss g inputs outputs labels_var = Inr r"
  shows "0 \<le> r"
proof -
  from assms obtain a b c d where
    "r = l2_norm_square a None + l2_norm_square b None + l2_norm_square c None
         + l2_norm_square d None"
    by (auto simp add: compute_eq_loss_def bind_eq_Inr Let_def)
  then show ?thesis
    using l2_norm_square_nonneg [of a None] l2_norm_square_nonneg [of b None]
      l2_norm_square_nonneg [of c None] l2_norm_square_nonneg [of d None] by simp
qed

lemmas eq_eval_defs =
  compute_eq_loss_def bind_def column_def list_item_def continuty_def momentum_def add_def
  sub_def mul_def scalar_times_def lift2_def elementwise_def div_tensor_def weighted_def
  l2_norm_square_None sum_squares_def scale_tensor_def np_sqrt_def Let_def

lemmas eq_ex_defs = ex_gradients_def ex_inputs_def ex_outputs_def ex_labels_var_def

lemma ex_compute_eq_loss:
  "compute_eq_loss ex_gradients ex_inputs ex_outputs ex_labels_var = Inr (2951009 / 1000000)"
  by (simp add: eq_ex_defs eq_eval_defs)

text \<open>
  Claim C6. Whatever compute_bc_loss returns, the weights being non-negative, and whatever
  compute_eq_loss returns is a non-negative number.
\<close>

theorem losses_nonneg:
  fixes inputs_attr :: "(string, (string, 'a) dict) dict"
  shows "(compute_bc_loss E inputs_attr labels_attr outputs_var pde = Inr r
            \<and> map_of labels_attr ''bc'' = Some labels_bc \<and> nonneg_weights labels_bc
          \<longrightarrow> 0 \<le> r)
         \<and> (compute_eq_loss g inputs outputs labels_var = Inr r' \<longrightarrow> 0 \<le> r')"
  using compute_bc_loss_nonneg [of E inputs_attr labels_attr outputs_var pde r]
    compute_eq_loss_nonneg [of g inputs outputs labels_var r'] by blast

theorem losses_nonneg_witness:
  "compute_bc_loss engine_refuses ex_inputs_attr (ex_labels_attr 1) ex_outputs_var ex_pde = Inr 29
   \<and> map_of (ex_labels_attr 1) ''bc'' = Some (ex_labels_bc 1) \<and> nonneg_weights (ex_labels_bc 1)
   \<and> (0::real) \<le> 29
   \<and> compute_eq_loss ex_gradients ex_inputs ex_outputs ex_labels_var = Inr (2951009 / 1000000)
   \<and> (0::real) \<le> 2951009 / 1000000"
proof -
  have lab: "map_of (ex_labels_attr 1) ''bc'' = Some (ex_labels_bc 1)"
    by (simp add: ex_labels_attr_def)
  have weights: "nonneg_weights (ex_labels_bc 1)"
    by (simp add: nonneg_weights_def ex_labels_bc_def)
  show ?thesis
    using losses_nonneg [of engine_refuses ex_inputs_attr "ex_labels_attr 1" ex_outputs_var
        ex_pde 29 "ex_labels_bc 1" ex_gradients ex_inputs ex_outputs ex_labels_var
        "2951009 / 1000000"]
      ex_compute_bc_loss ex_compute_eq_loss lab weights by simp
qed


subsection \<open>The equation loss\<close>

lemma column_shape:
  assumes "has_shape n m t" and "k < m"
  shows "column t k = Inr (map (\<lambda>i. t ! i ! k) [0..<n])"
proof -
  from assms have len: "length t = n" and rows: "\<forall>row\<in>set t. k < length row"
    by (auto simp add: has_shape_def list_all_iff)
  have "map (\<lambda>row. row ! k) t = map (\<lambda>i. t ! i ! k) [0..<length t]"
    by (rule nth_equalityI) simp_all
  then show ?thesis using len rows by (simp add: column_def list_all_iff)
qed

lemma map2_same: "map2 f (map a xs) (map b xs) = map (\<lambda>i. f (a i) (b i)) xs"
  by (induction xs) simp_all

lemma lift2_maps:
  "lift2 f (Inr (map a xs)) (Inr (map b xs)) = Inr (map (\<lambda>i. f (a i) (b i)) xs)"
  by (simp add: lift2_def bind_def elementwise_def map2_same)

lemma scalar_times_map: "scalar_times c (Inr (map a xs)) = Inr (map (\<lambda>i. c * a i) xs)"
  by (simp add: scalar_times_def bind_def)

lemma div_tensor_map: "div_tensor (map a xs) c = map (\<lambda>i. a i / c) xs"
  by (simp add: div_tensor_def)

lemma vector_as_map: "length v = n \<Longrightarrow> v = map (\<lambda>i. v ! i) [0..<n]"
  by (rule nth_equalityI) simp_all

lemma momentum_maps:
  assumes "has_shape n 3 jac" "has_shape n 3 hx" "has_shape n 3 hy" "has_shape n 3 hz"
    "has_shape n 3 jacp" "k < 3"
  shows "momentum nu rho dt (map f [0..<n]) (map f_n [0..<n]) (map u [0..<n]) (map v [0..<n])
           (map w [0..<n]) jac hx hy hz jacp k
         = Inr (map (\<lambda>i. momentum_at nu rho dt (f i) (f_n i) (u i) (v i) (w i)
                  (jac ! i ! 0) (jac ! i ! 1) (jac ! i ! 2)
                  (hx ! i ! 0 + hy ! i ! 1 + hz ! i ! 2) (jacp ! i ! k)) [0..<n])"
  using assms
  by (simp add: momentum_def add_def sub_def mul_def column_shape lift2_maps scalar_times_map
      div_tensor_map momentum_at_def algebra_simps diff_divide_distrib)

lemma l2_norm_square_weighted:
  "l2_norm_square (weighted (map r [0..<n]) 0 (np_sqrt 0.01)) None = 0.01 * squared_l2_norm n r"
proof -
  have "l2_norm_square (weighted (map r [0..<n]) 0 (np_sqrt 0.01)) None
        = sum_squares (scale_tensor (map r [0..<n]) (np_sqrt 0.01))"
    by (simp add: l2_norm_square_None weighted_def)
  also have "\<dots> = 0.01 * sum_squares (map r [0..<n])"
    by (rule sum_squares_scale_sqrt) simp
  also have "sum_squares (map r [0..<n]) = squared_l2_norm n r"
    by (simp add: sum_squares_def squared_l2_norm_def power2_eq_square comp_def)
  finally show ?thesis .
qed


lemma map_nth_upt: "length v = n \<Longrightarrow> map (\<lambda>i. v ! i) [0..<n] = v"
  by (rule nth_equalityI) simp_all

lemma momentum_value:
  assumes "has_shape n 3 jac" "has_shape n 3 hx" "has_shape n 3 hy" "has_shape n 3 hz"
    "has_shape n 3 jacp" "k < 3"
    and "length f = n" "length f_n = n" "length u = n" "length v = n" "length w = n"
  shows "momentum nu rho dt f f_n u v w jac hx hy hz jacp k
         = Inr (map (\<lambda>i. momentum_at nu rho dt (f ! i) (f_n ! i) (u ! i) (v ! i) (w ! i)
                  (jac ! i ! 0) (jac ! i ! 1) (jac ! i ! 2)
                  (hx ! i ! 0 + hy ! i ! 1 + hz ! i ! 2) (jacp ! i ! k)) [0..<n])"
  using momentum_maps [OF assms(1-6), of nu rho dt "\<lambda>i. f ! i" "\<lambda>i. f_n ! i" "\<lambda>i. u ! i"
      "\<lambda>i. v ! i" "\<lambda>i. w ! i"] assms(7-11)
  by (simp add: map_nth_upt)

lemma continuty_value:
  assumes "has_shape n 3 (jac0 g)" "has_shape n 3 (jac1 g)" "has_shape n 3 (jac2 g)"
  shows "continuty g = Inr (map (continuity_at g) [0..<n])"
  using assms
  by (simp add: continuty_def add_def column_shape lift2_maps continuity_at_def)

lemma compute_eq_loss_value:
  assumes "well_shaped n g inputs outputs labels_var"
  shows "compute_eq_loss g inputs outputs labels_var = Inr (eq_loss_sum n g outputs labels_var)"
proof -
  from assms have inp: "has_shape n 3 inputs" and out: "has_shape n 4 outputs"
    and j0: "has_shape n 3 (jac0 g)" and j1: "has_shape n 3 (jac1 g)"
    and j2: "has_shape n 3 (jac2 g)" and j3: "has_shape n 3 (jac3 g)"
    and h0: "has_shape n 3 (hes0 g)" and h1: "has_shape n 3 (hes1 g)"
    and h2: "has_shape n 3 (hes2 g)" and h3: "has_shape n 3 (hes3 g)"
    and h4: "has_shape n 3 (hes4 g)" and h5: "has_shape n 3 (hes5 g)"
    and h6: "has_shape n 3 (hes6 g)" and h7: "has_shape n 3 (hes7 g)"
    and h8: "has_shape n 3 (hes8 g)"
    and len: "3 \<le> length labels_var"
    and l0: "length (labels_var ! 0) = n" and l1: "length (labels_var ! 1) = n"
    and l2: "length (labels_var ! 2) = n"
    by (simp_all add: well_shaped_def)
  let ?u = "map (\<lambda>i. outputs ! i ! 0) [0..<n]"
  let ?v = "map (\<lambda>i. outputs ! i ! 1) [0..<n]"
  let ?w = "map (\<lambda>i. outputs ! i ! 2) [0..<n]"
  have mx: "momentum 0.01 1.0 1.0 ?u (labels_var ! 0) ?u ?v ?w (jac0 g) (hes0 g) (hes1 g) (hes2 g)
              (jac3 g) 0 = Inr (map (momentum_x_at g outputs labels_var) [0..<n])"
    by (subst momentum_value [OF j0 h0 h1 h2 j3 _ _ l0, of 0])
      (simp_all add: momentum_x_at_def cong: map_cong)
  have my: "momentum 0.01 1.0 1.0 ?v (labels_var ! 1) ?u ?v ?w (jac1 g) (hes3 g) (hes4 g) (hes5 g)
              (jac3 g) 1 = Inr (map (momentum_y_at g outputs labels_var) [0..<n])"
    by (subst momentum_value [OF j1 h3 h4 h5 j3 _ _ l1, of 1])
      (simp_all add: momentum_y_at_def cong: map_cong)
  have mz: "momentum 0.01 1.0 1.0 ?w (labels_var ! 2) ?u ?v ?w (jac2 g) (hes6 g) (hes7 g) (hes8 g)
              (jac3 g) 2 = Inr (map (momentum_z_at g outputs labels_var) [0..<n])"
    by (subst momentum_value [OF j2 h6 h7 h8 j3 _ _ l2, of 2])
      (simp_all add: momentum_z_at_def cong: map_cong)
  have labels: "list_item labels_var 0 = Inr (labels_var ! 0)"
    "list_item labels_var 1 = Inr (labels_var ! 1)" "list_item labels_var 2 = Inr (labels_var ! 2)"
    using len by (auto simp add: list_item_def)
  have cols:
    "column inputs 0 = Inr (map (\<lambda>i. inputs ! i ! 0) [0..<n])"
    "column inputs 1 = Inr (map (\<lambda>i. inputs ! i ! 1) [0..<n])"
    "column inputs 2 = Inr (map (\<lambda>i. inputs ! i ! 2) [0..<n])"
    "column outputs 0 = Inr ?u" "column outputs 1 = Inr ?v" "column outputs 2 = Inr ?w"
    "column outputs 3 = Inr (map (\<lambda>i. outputs ! i ! 3) [0..<n])"
    "column (jac0 g) 0 = Inr (map (\<lambda>i. jac0 g ! i ! 0) [0..<n])"
    "column (jac0 g) 1 = Inr (map (\<lambda>i. jac0 g ! i ! 1) [0..<n])"
    "column (jac0 g) 2 = Inr (map (\<lambda>i. jac0 g ! i ! 2) [0..<n])"
    "column (jac1 g) 0 = Inr (map (\<lambda>i. jac1 g ! i ! 0) [0..<n])"
    "column (jac1 g) 1 = Inr (map (\<lambda>i. jac1 g ! i ! 1) [0..<n])"
    "column (jac1 g) 2 = Inr (map (\<lambda>i. jac1 g ! i ! 2) [0..<n])"
    "column (jac2 g) 0 = Inr (map (\<lambda>i. jac2 g ! i ! 0) [0..<n])"
    "column (jac2 g) 1 = Inr (map (\<lambda>i. jac2 g ! i ! 1) [0..<n])"
    "column (jac2 g) 2 = Inr (map (\<lambda>i. jac2 g ! i ! 2) [0..<n])"
    by (rule column_shape [OF inp] column_shape [OF out] column_shape [OF j0]
        column_shape [OF j1] column_shape [OF j2], simp)+
  have "compute_eq_loss g inputs outputs labels_var
        = Inr (0.01 * squared_l2_norm n (continuity_at g)
               + 0.01 * squared_l2_norm n (momentum_x_at g outputs labels_var)
               + 0.01 * squared_l2_norm n (momentum_y_at g outputs labels_var)
               + 0.01 * squared_l2_norm n (momentum_z_at g outputs labels_var))"
    unfolding compute_eq_loss_def cols labels bind_Inr Let_def continuty_value [OF j0 j1 j2]
      mx my mz l2_norm_square_weighted ..
  then show ?thesis by (simp add: eq_loss_sum_def algebra_simps)
qed

text \<open>
  Claim C1. On well-shaped arguments compute_eq_loss returns 0.01 times the sum of the
  squared L2 norms of the continuity residual and the three momentum residuals.
\<close>

theorem compute_eq_loss_sum:
  assumes "well_shaped n g inputs outputs labels_var"
  shows "compute_eq_loss g inputs outputs labels_var = Inr (eq_loss_sum n g outputs labels_var)"
  using assms by (rule compute_eq_loss_value)

lemma ex_well_shaped: "well_shaped 2 ex_gradients ex_inputs ex_outputs ex_labels_var"
  by (simp add: well_shaped_def has_shape_def eq_ex_defs)

theorem compute_eq_loss_sum_witness:
  "well_shaped 2 ex_gradients ex_inputs ex_outputs ex_labels_var
   \<and> compute_eq_loss ex_gradients ex_inputs ex_outputs ex_labels_var
       = Inr (eq_loss_sum 2 ex_gradients ex_outputs ex_labels_var)
   \<and> eq_loss_sum 2 ex_gradients ex_outputs ex_labels_var = 2951009 / 1000000"
  using compute_eq_loss_sum [OF ex_well_shaped] ex_well_shaped ex_compute_eq_loss by simp


subsection \<open>Exact solutions\<close>

lemma sum_list_zero: "(\<And>x. x \<in> set xs \<Longrightarrow> f x = (0::real)) \<Longrightarrow> sum_list (map f xs) = 0"
  by (induction xs) simp_all

lemma sum_squares_zero: "list_all (\<lambda>d. d = 0) x \<Longrightarrow> sum_squares x = 0"
  unfolding sum_squares_def by (rule sum_list_zero) (simp add: list_all_iff)

lemma squared_l2_norm_zero: "(\<And>i. i < n \<Longrightarrow> r i = 0) \<Longrightarrow> squared_l2_norm n r = 0"
  unfolding squared_l2_norm_def by (rule sum_list_zero) simp

lemma eq_loss_sum_zero:
  assumes "residuals_vanish n g outputs labels_var"
  shows "eq_loss_sum n g outputs labels_var = 0"
proof -
  from assms have z: "\<And>i. i < n \<Longrightarrow>
    continuity_at g i = 0 \<and> momentum_x_at g outputs labels_var i = 0
    \<and> momentum_y_at g outputs labels_var i = 0 \<and> momentum_z_at g outputs labels_var i = 0"
    by (simp add: residuals_vanish_def list_all_iff)
  have "squared_l2_norm n (continuity_at g) = 0"
    "squared_l2_norm n (momentum_x_at g outputs labels_var) = 0"
    "squared_l2_norm n (momentum_y_at g outputs labels_var) = 0"
    "squared_l2_norm n (momentum_z_at g outputs labels_var) = 0"
    using z by (simp_all add: squared_l2_norm_zero)
  then show ?thesis by (simp add: eq_loss_sum_def)
qed

lemma bc_loss_sum_zero:
  assumes "zero_mismatch names labels_bc outputs_var pde"
  shows "bc_loss_sum names labels_bc outputs_var pde = 0"
  unfolding bc_loss_sum_def
proof (rule sum_list_zero)
  fix x assume x: "x \<in> set (enumerate 0 names)"
  obtain i name_b where ib: "x = (i, name_b)" by (cases x)
  have "(\<Sum>j\<leftarrow>[0..<length (the (map_of (bc pde) name_b))].
          weighted_deviation (outputs_var ! (i + 1)) (the (map_of (bc pde) name_b) ! j)
            (the (map_of labels_bc name_b) ! j)) = 0"
  proof (rule sum_list_zero)
    fix j assume "j \<in> set [0..<length (the (map_of (bc pde) name_b))]"
    with assms x ib have "list_all (\<lambda>d. d = 0)
        (deviation (outputs_var ! (i + 1)) (the (map_of (bc pde) name_b) ! j)
           (the (map_of labels_bc name_b) ! j))"
      by (auto simp add: zero_mismatch_def list_all_iff)
    then show "weighted_deviation (outputs_var ! (i + 1)) (the (map_of (bc pde) name_b) ! j)
            (the (map_of labels_bc name_b) ! j) = 0"
      by (simp add: weighted_deviation_def sum_squares_zero)
  qed
  then show "(case x of (i, name_b) \<Rightarrow>
          \<Sum>j\<leftarrow>[0..<length (the (map_of (bc pde) name_b))].
            weighted_deviation (outputs_var ! (i + 1)) (the (map_of (bc pde) name_b) ! j)
              (the (map_of labels_bc name_b) ! j)) = 0"
    by (simp add: ib)
qed

text \<open>
  Claim C5. When the four residuals vanish at every point compute_eq_loss returns 0; when
  every boundary deviation is zero, whatever compute_bc_loss returns is 0; and for
  inputs [[0,0,0]], outputs [[0,0,0,0]], labels 0 and derivative terms all zero
  compute_eq_loss returns 0.
\<close>

theorem exact_solution_zero_loss:
  fixes inputs_attr :: "(string, (string, 'a) dict) dict"
  shows "(well_shaped n g inputs outputs labels_var \<and> residuals_vanish n g outputs labels_var
           \<longrightarrow> compute_eq_loss g inputs outputs labels_var = Inr 0)
         \<and> (compute_bc_loss E inputs_attr labels_attr outputs_var pde = Inr r
              \<and> map_of inputs_attr ''bc'' = Some inputs_bc
              \<and> map_of labels_attr ''bc'' = Some labels_bc
              \<and> valid_names pde \<and> nonneg_weights labels_bc
              \<and> zero_mismatch (keys inputs_bc) labels_bc outputs_var pde
            \<longrightarrow> r = 0)
         \<and> compute_eq_loss zero_gradients [[0, 0, 0]] [[0, 0, 0, 0]] [[0], [0], [0]] = Inr 0"
proof (intro conjI impI)
  assume "well_shaped n g inputs outputs labels_var \<and> residuals_vanish n g outputs labels_var"
  then show "compute_eq_loss g inputs outputs labels_var = Inr 0"
    using compute_eq_loss_value [of n g inputs outputs labels_var]
      eq_loss_sum_zero [of n g outputs labels_var] by simp
next
  assume a: "compute_bc_loss E inputs_attr labels_attr outputs_var pde = Inr r
     \<and> map_of inputs_attr ''bc'' = Some inputs_bc \<and> map_of labels_attr ''bc'' = Some labels_bc
     \<and> valid_names pde \<and> nonneg_weights labels_bc
     \<and> zero_mismatch (keys inputs_bc) labels_bc outputs_var pde"
  then have "r = bc_loss_sum (keys inputs_bc) labels_bc outputs_var pde"
    by (intro compute_bc_loss_value [of E inputs_attr labels_attr outputs_var pde r]) simp_all
  then show "r = 0" using a by (simp add: bc_loss_sum_zero)
next
  show "compute_eq_loss zero_gradients [[0, 0, 0]] [[0, 0, 0, 0]] [[0], [0], [0]] = Inr 0"
    by (simp add: zero_gradients_def eq_eval_defs)
qed

lemmas exact_defs =
  exact_gradients_def exact_inputs_attr_def exact_labels_bc_def exact_labels_attr_def
  exact_pde_def exact_outputs_var_def engine_refuses_def

theorem exact_solution_zero_loss_witness:
  "well_shaped 1 exact_gradients [[7, 8, 9]] [[1, 0, 0, 5]] [[1], [0], [0]]
   \<and> residuals_vanish 1 exact_gradients [[1, 0, 0, 5]] [[1], [0], [0]]
   \<and> compute_eq_loss exact_gradients [[7, 8, 9]] [[1, 0, 0, 5]] [[1], [0], [0]] = Inr 0
   \<and> compute_bc_loss engine_refuses exact_inputs_attr exact_labels_attr exact_outputs_var
        exact_pde = Inr 0
   \<and> map_of exact_inputs_attr ''bc'' = Some [(''wall'', ())]
   \<and> map_of exact_labels_attr ''bc'' = Some exact_labels_bc
   \<and> valid_names exact_pde \<and> nonneg_weights exact_labels_bc
   \<and> zero_mismatch (keys [(''wall'', ())]) exact_labels_bc exact_outputs_var exact_pde"
proof -
  have shaped: "well_shaped 1 exact_gradients [[7, 8, 9]] [[1, 0, 0, 5]] [[1], [0], [0]]"
    by (simp add: well_shaped_def has_shape_def exact_gradients_def)
  have vanish: "residuals_vanish 1 exact_gradients [[1, 0, 0, 5]] [[1], [0], [0]]"
    by (simp add: residuals_vanish_def continuity_at_def momentum_x_at_def momentum_y_at_def
        momentum_z_at_def momentum_at_def exact_gradients_def)
  have loss: "compute_bc_loss engine_refuses exact_inputs_attr exact_labels_attr
                exact_outputs_var exact_pde = Inr 0"
    by (simp add: exact_defs eval_defs)
  have inp: "map_of exact_inputs_attr ''bc'' = Some [(''wall'', ())]"
    by (simp add: exact_inputs_attr_def)
  have lab: "map_of exact_labels_attr ''bc'' = Some exact_labels_bc"
    by (simp add: exact_labels_attr_def)
  have names: "valid_names exact_pde"
    by (simp add: valid_names_def exact_pde_def)
  have weights: "nonneg_weights exact_labels_bc"
    by (simp add: nonneg_weights_def exact_labels_bc_def)
  have zero: "zero_mismatch (keys [(''wall'', ())]) exact_labels_bc exact_outputs_var exact_pde"
    by (simp add: zero_mismatch_def keys_def enumerate_eq_zip exact_defs deviation_def
        difference_def channel_def upt_rec)
  show ?thesis
    using exact_solution_zero_loss [of 1 exact_gradients "[[7, 8, 9]]" "[[1, 0, 0, 5]]"
        "[[1], [0], [0]]" engine_refuses exact_inputs_attr exact_labels_attr exact_outputs_var
        exact_pde 0 "[(''wall'', ())]" exact_labels_bc]
      shaped vanish loss inp lab names weights zero by simp
qed

subsection \<open>Translated coordinates\<close>

lemma column_translate:
  "column (translate c t) k =
     (case column t k of Inl e \<Rightarrow> Inl e | Inr col \<Rightarrow> Inr (map (\<lambda>x. x + c) col))"
  by (simp add: column_def translate_def list_all_iff comp_def)

text \<open>
  The inputs enter the loss only as the argument of the differentiation: with the output
  tensor and the gradient tensors the same, translated inputs give the same result.
\<close>

lemma compute_eq_loss_translate:
  "compute_eq_loss g (translate c inputs) outputs labels_var
   = compute_eq_loss g inputs outputs labels_var"
  unfolding compute_eq_loss_def column_translate
  by (simp add: bind_def split: sum.splits)


subsection \<open>Data-parallel partition\<close>

lemma slice_bounds_last:
  "0 < n \<Longrightarrow> slice_bounds n (n - 1) g = ((n - 1) * (g div n), g)"
  by (simp add: slice_bounds_def Let_def algebra_simps)

lemma slice_bounds_inner:
  "r \<noteq> n - 1 \<Longrightarrow> slice_bounds n r g = (r * (g div n), (r + 1) * (g div n))"
  by (simp add: slice_bounds_def Let_def)

lemma div_bound: "0 < n \<Longrightarrow> 0 \<le> g \<Longrightarrow> n * (g div n) \<le> (g::int)"
  by (metis mult.commute mult_div_mod_eq add.commute le_add_same_cancel2 pos_mod_sign)

lemma slice_bounds_ordered:
  assumes "0 < n" "0 \<le> g" "0 \<le> r" "r < n"
  shows "0 \<le> fst (slice_bounds n r g) \<and> fst (slice_bounds n r g) \<le> snd (slice_bounds n r g)
         \<and> snd (slice_bounds n r g) \<le> g"
proof -
  have l: "0 \<le> g div n" using assms by (simp add: pos_imp_zdiv_nonneg_iff)
  show ?thesis
  proof (cases "r = n - 1")
    case True
    have "(n - 1) * (g div n) \<le> n * (g div n)" using l by (simp add: mult_right_mono)
    then have "(n - 1) * (g div n) \<le> g" using div_bound [OF assms(1,2)] by linarith
    moreover have "0 \<le> (n - 1) * (g div n)" using l assms by simp
    ultimately show ?thesis using True assms by (simp add: slice_bounds_last)
  next
    case False
    then have "r + 1 \<le> n" using assms by simp
    then have "(r + 1) * (g div n) \<le> n * (g div n)" using l by (rule mult_right_mono)
    then have "(r + 1) * (g div n) \<le> g" using div_bound [OF assms(1,2)] by linarith
    moreover have "r * (g div n) \<le> (r + 1) * (g div n)" using l by (simp add: mult_right_mono)
    moreover have "0 \<le> r * (g div n)" using l assms by simp
    ultimately show ?thesis using False by (simp add: slice_bounds_inner)
  qed
qed

lemma slice_bounds_size:
  assumes "0 < n"
  shows "snd (slice_bounds n r g) - fst (slice_bounds n r g) = local_batch_size n r g"
  by (simp add: slice_bounds_def local_batch_size_def Let_def algebra_simps)

lemma slice_bounds_adjacent:
  assumes "0 \<le> r" "r + 1 < n"
  shows "snd (slice_bounds n r g) = fst (slice_bounds n (r + 1) g)"
  using assms by (simp add: slice_bounds_def Let_def)


lemma fst_slice_bounds: "fst (slice_bounds n r g) = r * (g div n)"
  by (simp add: slice_bounds_def Let_def)

lemma slice_bounds_mono:
  assumes "0 < n" "0 \<le> g" "r < r'" "r' < n"
  shows "snd (slice_bounds n r g) \<le> fst (slice_bounds n r' g)"
proof -
  have l: "0 \<le> g div n" using assms by (simp add: pos_imp_zdiv_nonneg_iff)
  have "r \<noteq> n - 1" using assms by simp
  moreover have "(r + 1) * (g div n) \<le> r' * (g div n)"
    using assms l by (intro mult_right_mono) simp_all
  ultimately show ?thesis by (simp add: slice_bounds_inner fst_slice_bounds)
qed

lemma rank_rows_disjoint:
  assumes "0 < n" "0 \<le> g" "0 \<le> r" "r < n" "0 \<le> r'" "r' < n" "r \<noteq> r'"
  shows "rank_rows n r g \<inter> rank_rows n r' g = {}"
proof (cases "r < r'")
  case True
  then show ?thesis
    using slice_bounds_mono [OF assms(1,2) True assms(6)] by (auto simp add: rank_rows_def)
next
  case False
  then have lt: "r' < r" using assms by simp
  show ?thesis
    using slice_bounds_mono [OF assms(1,2) lt assms(4)] by (auto simp add: rank_rows_def)
qed

lemma rank_rows_cover:
  assumes "0 < n" "0 \<le> i" "i < g"
  shows "\<exists>r. 0 \<le> r \<and> r < n \<and> i \<in> rank_rows n r g"
proof (cases "(n - 1) * (g div n) \<le> i")
  case True
  then have "i \<in> rank_rows n (n - 1) g"
    using assms by (simp add: rank_rows_def slice_bounds_last)
  then show ?thesis using assms by (intro exI [of _ "n - 1"]) simp
next
  case False
  define l where "l = g div n"
  have g: "0 \<le> g" using assms by simp
  have l0: "0 \<le> l" unfolding l_def using assms g by (simp add: pos_imp_zdiv_nonneg_iff)
  from False have small: "i < (n - 1) * l" by (simp add: l_def)
  have lpos: "0 < l"
  proof (rule ccontr)
    assume "\<not> 0 < l"
    then have "l = 0" using l0 by simp
    then show False using small assms by simp
  qed
  define r where "r = i div l"
  have r0: "0 \<le> r" unfolding r_def using assms lpos by (simp add: pos_imp_zdiv_nonneg_iff)
  have lo: "r * l \<le> i" unfolding r_def using div_bound [OF lpos assms(2)] by (simp add: mult.commute)
  have hi: "i < (r + 1) * l"
  proof -
    have "i = l * (i div l) + i mod l" by simp
    moreover have "i mod l < l" using lpos by simp
    ultimately have "i < l * (i div l) + l" by linarith
    then show ?thesis unfolding r_def by (simp add: algebra_simps)
  qed
  have rn: "r < n - 1"
  proof (rule ccontr)
    assume "\<not> r < n - 1"
    then have "n - 1 \<le> r" by simp
    then have "(n - 1) * l \<le> r * l" using l0 by (rule mult_right_mono)
    then show False using lo small by simp
  qed
  then have "r \<noteq> n - 1" by simp
  then have "i \<in> rank_rows n r g"
    using lo hi by (simp add: rank_rows_def slice_bounds_inner l_def)
  then show ?thesis using r0 rn by (intro exI [of _ r]) simp
qed

lemma rank_rows_union:
  assumes "0 < n" "0 \<le> g"
  shows "(\<Union>r\<in>{0..<n}. rank_rows n r g) = {0..<g}"
proof (intro equalityI subsetI)
  fix i assume "i \<in> (\<Union>r\<in>{0..<n}. rank_rows n r g)"
  then obtain r where r: "0 \<le> r" "r < n" and i: "i \<in> rank_rows n r g" by auto
  then show "i \<in> {0..<g}"
    using slice_bounds_ordered [OF assms r] by (auto simp add: rank_rows_def)
next
  fix i assume "i \<in> {0..<g}"
  then show "i \<in> (\<Union>r\<in>{0..<n}. rank_rows n r g)"
    using rank_rows_cover [OF assms(1), of i g] by auto
qed

lemma local_batch_size_sum:
  assumes "0 < n"
  shows "(\<Sum>r\<in>{0..<n}. local_batch_size n r g) = g"
proof -
  have split: "{0..<n} = insert (n - 1) {0..<n - 1}" using assms by auto
  have "(\<Sum>r\<in>{0..<n - 1}. local_batch_size n r g) = (\<Sum>r\<in>{0..<n - 1}. g div n)"
    by (rule sum.cong) (simp_all add: local_batch_size_def)
  also have "\<dots> = (n - 1) * (g div n)" using assms by simp
  finally have inner: "(\<Sum>r\<in>{0..<n - 1}. local_batch_size n r g) = (n - 1) * (g div n)" .
  have "(\<Sum>r\<in>{0..<n}. local_batch_size n r g)
        = local_batch_size n (n - 1) g + (\<Sum>r\<in>{0..<n - 1}. local_batch_size n r g)"
    unfolding split by (rule sum.insert) simp_all
  also have "\<dots> = g" unfolding inner by (simp add: local_batch_size_def algebra_simps)
  finally show ?thesis .
qed


lemma py_slice_within:
  assumes "0 \<le> s" "s \<le> e" "e \<le> int (length xs)"
  shows "py_slice xs s e = take (nat (e - s)) (drop (nat s) xs)"
  using assms by (simp add: py_slice_def Let_def min_def)

lemma partition_entry_rows:
  assumes "0 < n" "0 \<le> r" "r < n"
  shows "partition_entry n r d
         = take (nat (local_batch_size n r (int (length d))))
             (drop (nat (fst (slice_bounds n r (int (length d))))) d)"
proof -
  obtain s e where b: "slice_bounds n r (int (length d)) = (s, e)" by (cases "slice_bounds n r (int (length d))")
  have "0 \<le> s \<and> s \<le> e \<and> e \<le> int (length d)"
    using slice_bounds_ordered [OF assms(1) _ assms(2,3), of "int (length d)"] b by simp
  moreover have "e - s = local_batch_size n r (int (length d))"
    using slice_bounds_size [OF assms(1), of r "int (length d)"] b by simp
  ultimately show ?thesis by (simp add: partition_entry_def b py_slice_within)
qed

lemma length_partition_entry:
  assumes "0 < n" "0 \<le> r" "r < n"
  shows "int (length (partition_entry n r d)) = local_batch_size n r (int (length d))"
proof -
  obtain s e where b: "slice_bounds n r (int (length d)) = (s, e)"
    by (cases "slice_bounds n r (int (length d))")
  have ord: "0 \<le> s" "s \<le> e" "e \<le> int (length d)"
    using slice_bounds_ordered [OF assms(1) _ assms(2,3), of "int (length d)"] b by simp_all
  have size: "e - s = local_batch_size n r (int (length d))"
    using slice_bounds_size [OF assms(1), of r "int (length d)"] b by simp
  have "partition_entry n r d = take (nat (e - s)) (drop (nat s) d)"
    using ord by (simp add: partition_entry_def b py_slice_within)
  then have "int (length (partition_entry n r d)) = int (min (length d - nat s) (nat (e - s)))"
    by simp
  also have "\<dots> = e - s" using ord by (simp add: min_def) linarith
  finally show ?thesis using size by simp
qed

lemma sublist_py_slice: "sublist (py_slice xs s e) xs"
proof -
  have "sublist (take k (drop m xs)) xs" for k m
    by (meson sublist_order.order_trans sublist_take sublist_drop)
  then show ?thesis by (simp add: py_slice_def Let_def)
qed

lemma sublist_partition_entry: "sublist (partition_entry n r d) d"
  by (simp add: partition_entry_def sublist_py_slice split: prod.splits)

lemma fold_update:
  assumes "k \<le> length xs"
  shows "length (fold (\<lambda>i d. if P i then d else d[i := f (d ! i)]) [0..<k] xs) = length xs
         \<and> (\<forall>i<length xs. fold (\<lambda>i d. if P i then d else d[i := f (d ! i)]) [0..<k] xs ! i
               = (if i < k \<and> \<not> P i then f (xs ! i) else xs ! i))"
  using assms
proof (induction k)
  case 0
  then show ?case by simp
next
  case (Suc k)
  then have IH: "length (fold (\<lambda>i d. if P i then d else d[i := f (d ! i)]) [0..<k] xs) = length xs"
    "\<forall>i<length xs. fold (\<lambda>i d. if P i then d else d[i := f (d ! i)]) [0..<k] xs ! i
               = (if i < k \<and> \<not> P i then f (xs ! i) else xs ! i)"
    by simp_all
  from Suc.prems have k: "k < length xs" by simp
  show ?case
    using IH k by (auto simp add: nth_list_update less_Suc_eq)
qed

lemma data_parallel_partition_nth:
  "length (data_parallel_partition n r data ts) = length data
   \<and> (\<forall>i<length data. data_parallel_partition n r data ts ! i
         = (if n \<le> 1 \<or> (ts > 0 \<and> i \<in> set [0, 1, 2, 7, 8, 9]) then data ! i
            else partition_entry n r (data ! i)))"
proof (cases "n \<le> 1")
  case True
  then show ?thesis by (simp add: data_parallel_partition_def)
next
  case False
  then show ?thesis
    using fold_update [of "length data" data "\<lambda>i. ts > 0 \<and> i \<in> set [0, 1, 2, 7, 8, 9]"
        "partition_entry n r"]
    by (simp add: data_parallel_partition_def)
qed


lemmas partition_eval_defs =
  data_parallel_partition_def upt_rec partition_entry_def slice_bounds_def py_slice_def Let_def

text \<open>
  Claim C10. With a time step greater than 0 the list keeps its length, the entries at the
  indices 0, 1, 2, 7, 8 and 9 are unchanged, every other entry is the slice that the rank is
  assigned (the entry itself when there is a single rank), and every entry of the result is
  a contiguous part of the entry it replaces.
\<close>

theorem partition_frame:
  assumes "0 < time_step"
  shows "length (data_parallel_partition nranks rank data time_step) = length data
         \<and> (\<forall>i<length data.
               (i \<in> {0, 1, 2, 7, 8, 9} \<longrightarrow>
                  data_parallel_partition nranks rank data time_step ! i = data ! i)
               \<and> (i \<notin> {0, 1, 2, 7, 8, 9} \<longrightarrow>
                  data_parallel_partition nranks rank data time_step ! i
                    = (if nranks \<le> 1 then data ! i else partition_entry nranks rank (data ! i)))
               \<and> sublist (data_parallel_partition nranks rank data time_step ! i) (data ! i))"
  using assms data_parallel_partition_nth [of nranks rank data time_step]
  by (auto simp add: sublist_partition_entry)

theorem partition_frame_witness:
  "(0::int) < 1
   \<and> data_parallel_partition 3 1 ex_data 1
       = [[0, 1, 2, 3, 4, 5, 6], [10, 11], [20, 21, 22], [31], [], [51], [],
          [70, 71, 72, 73, 74, 75], [80, 81, 82]]
   \<and> length (data_parallel_partition 3 1 ex_data 1) = length ex_data
   \<and> data_parallel_partition 3 1 ex_data 1 ! 7 = ex_data ! 7
   \<and> data_parallel_partition 3 1 ex_data 1 ! 3 = partition_entry 3 1 (ex_data ! 3)
   \<and> sublist (data_parallel_partition 3 1 ex_data 1 ! 3) (ex_data ! 3)"
proof -
  have t: "(0::int) < 1" by simp
  have v: "data_parallel_partition 3 1 ex_data 1
       = [[0, 1, 2, 3, 4, 5, 6], [10, 11], [20, 21, 22], [31], [], [51], [],
          [70, 71, 72, 73, 74, 75], [80, 81, 82]]"
    by (simp add: ex_data_def partition_eval_defs)
  have len: "7 < length ex_data" "3 < length ex_data" by (simp_all add: ex_data_def)
  have frame: "length (data_parallel_partition 3 1 ex_data 1) = length ex_data"
    "data_parallel_partition 3 1 ex_data 1 ! 7 = ex_data ! 7"
    "data_parallel_partition 3 1 ex_data 1 ! 3 = partition_entry 3 1 (ex_data ! 3)"
    "sublist (data_parallel_partition 3 1 ex_data 1 ! 3) (ex_data ! 3)"
  proof -
    have all: "length (data_parallel_partition 3 1 ex_data 1) = length ex_data
      \<and> (\<forall>i<length ex_data.
            (i \<in> {0, 1, 2, 7, 8, 9} \<longrightarrow> data_parallel_partition 3 1 ex_data 1 ! i = ex_data ! i)
            \<and> (i \<notin> {0, 1, 2, 7, 8, 9} \<longrightarrow>
                 data_parallel_partition 3 1 ex_data 1 ! i
                   = (if (3::int) \<le> 1 then ex_data ! i else partition_entry 3 1 (ex_data ! i)))
            \<and> sublist (data_parallel_partition 3 1 ex_data 1 ! i) (ex_data ! i))"
      by (rule partition_frame [OF t])
    show "length (data_parallel_partition 3 1 ex_data 1) = length ex_data"
      using all by (rule conjunct1)
    have at7: "(7 \<in> {0, 1, 2, 7, 8, 9::nat} \<longrightarrow> data_parallel_partition 3 1 ex_data 1 ! 7 = ex_data ! 7)"
      using all len(1) by blast
    then show "data_parallel_partition 3 1 ex_data 1 ! 7 = ex_data ! 7" by simp
    have at3: "(3 \<notin> {0, 1, 2, 7, 8, 9::nat} \<longrightarrow>
                 data_parallel_partition 3 1 ex_data 1 ! 3
                   = (if (3::int) \<le> 1 then ex_data ! 3 else partition_entry 3 1 (ex_data ! 3)))"
      "sublist (data_parallel_partition 3 1 ex_data 1 ! 3) (ex_data ! 3)"
      using all len(2) by blast+
    from at3(1) show "data_parallel_partition 3 1 ex_data 1 ! 3 = partition_entry 3 1 (ex_data ! 3)"
      by simp
    from at3(2) show "sublist (data_parallel_partition 3 1 ex_data 1 ! 3) (ex_data ! 3)" .
  qed
  show ?thesis using t v frame by simp
qed


lemma card_rank_rows:
  assumes "0 < n" "0 \<le> g" "0 \<le> r" "r < n"
  shows "int (card (rank_rows n r g)) = local_batch_size n r g"
  using slice_bounds_ordered [OF assms] slice_bounds_size [OF assms(1), of r g]
  by (simp add: rank_rows_def)

lemma rank_rows_unique:
  assumes "0 < n" "0 \<le> g" "i \<in> {0..<g}"
  shows "\<exists>!r. r \<in> {0..<n} \<and> i \<in> rank_rows n r g"
proof -
  from assms obtain r where r: "0 \<le> r" "r < n" "i \<in> rank_rows n r g"
    using rank_rows_cover [OF assms(1), of i g] by auto
  show ?thesis
  proof (rule ex1I [of _ r])
    show "r \<in> {0..<n} \<and> i \<in> rank_rows n r g" using r by simp
  next
    fix r' assume r': "r' \<in> {0..<n} \<and> i \<in> rank_rows n r' g"
    show "r' = r"
    proof (rule ccontr)
      assume "r' \<noteq> r"
      then have "rank_rows n r g \<inter> rank_rows n r' g = {}"
        using rank_rows_disjoint [OF assms(1,2) r(1,2), of r'] r' by auto
      then show False using r r' by auto
    qed
  qed
qed

lemma create_inputs_var_single:
  assumes "1 < n"
  shows "create_inputs_var n r [g # rest]
         = Inr [\<lparr>data_name = ''input0'', data_shape = local_batch_size n r g # rest,
                  data_dtype = ''float32'', stop_gradient = False\<rparr>]"
  using assms
  by (simp add: create_inputs_var_def enumerate_eq_zip input_var_def bind_def list_item_def
      digit_char_def)

lemma create_labels_var_shape:
  assumes "1 < n" "i < length labels"
  shows "data_shape (create_labels_var n r labels npoints data_size ! i)
         = [local_batch_size n r (if i \<in> {0, 1, 2} then npoints else data_size)]"
  using assms by (simp add: create_labels_var_def label_var_def Let_def)

lemma data_parallel_partition_single: "n \<le> 1 \<Longrightarrow> data_parallel_partition n r data ts = data"
  by (simp add: data_parallel_partition_def)


lemma input_var_declared:
  assumes "i < length inputs" "inputs ! i \<noteq> []"
  shows "input_var n r i (inputs ! i) = Inr (declared_input n r inputs i)"
proof -
  obtain g rest where shp: "inputs ! i = g # rest" using assms(2) by (cases "inputs ! i") auto
  show ?thesis
    by (simp add: input_var_def declared_input_def shp bind_def list_item_def)
qed

lemma create_inputs_var_loop:
  assumes "\<And>k. k < length xs \<Longrightarrow> body_var (m + k) (xs ! k) = Inr (f (m + k))"
  shows "for_each (\<lambda>inputs_var (i, input_shape).
             bind (body_var i input_shape) (\<lambda>input. Inr (inputs_var @ [input])))
           acc (enumerate m xs)
         = Inr (acc @ map f [m..<m + length xs])"
  using assms
proof (induction xs arbitrary: acc m)
  case Nil
  then show ?case by simp
next
  case (Cons x xs)
  have first: "body_var m x = Inr (f m)" using Cons.prems [of 0] by simp
  have rest: "\<And>k. k < length xs \<Longrightarrow> body_var (Suc m + k) (xs ! k) = Inr (f (Suc m + k))"
    using Cons.prems [of "Suc k" for k] by simp
  have "for_each (\<lambda>inputs_var (i, input_shape).
             bind (body_var i input_shape) (\<lambda>input. Inr (inputs_var @ [input])))
           (acc @ [f m]) (enumerate (Suc m) xs)
         = Inr ((acc @ [f m]) @ map f [Suc m..<Suc m + length xs])"
    by (rule Cons.IH [OF rest])
  then show ?case using first by (simp add: bind_def upt_rec)
qed

lemma create_inputs_var_declared:
  assumes "list_all (\<lambda>input_shape. input_shape \<noteq> []) inputs"
  shows "create_inputs_var n r inputs = Inr (map (declared_input n r inputs) [0..<length inputs])"
proof -
  have "\<And>k. k < length inputs \<Longrightarrow>
          input_var n r (0 + k) (inputs ! k) = Inr (declared_input n r inputs (0 + k))"
    using assms by (simp add: input_var_declared list_all_iff)
  from create_inputs_var_loop [of inputs "input_var n r" 0 "declared_input n r inputs" "[]", OF this]
  show ?thesis by (simp add: create_inputs_var_def)
qed

lemma create_labels_var_declared:
  "create_labels_var n r labels npoints data_size
   = map (declared_label n r npoints data_size) [0..<length labels]"
  by (simp add: create_labels_var_def label_var_def declared_label_def Let_def)

text \<open>
  Claim C9. For n >= 1 ranks and a batch of g >= 0 rows, rank r is assigned the rows from
  r * (g div n) up to (r + 1) * (g div n), the last rank g mod n more; the ranges of two
  different ranks are disjoint and together they are the rows 0 to g - 1, so every row
  belongs to exactly one rank; the range of rank r has local_batch_size n r g rows, which
  is g div n, plus g mod n for the last rank, and these sizes add up to g. On more than
  one rank data_parallel_partition (at time step 0) replaces every entry by the rows of
  that range, as many as the local batch size of the entry's length; create_inputs_var
  declares every input, and create_labels_var every label, with the first dimension
  replaced by the local batch size of that dimension, and with no other change. With at
  most one rank data_parallel_partition returns the data as given.
\<close>

theorem partition_covers:
  assumes "1 \<le> n" "0 \<le> g"
  shows "(\<forall>r\<in>{0..<n}. slice_bounds n r g
            = (r * (g div n), (r + 1) * (g div n) + (if r = n - 1 then g mod n else 0)))
         \<and> (\<forall>r\<in>{0..<n}. \<forall>r'\<in>{0..<n}. r \<noteq> r' \<longrightarrow> rank_rows n r g \<inter> rank_rows n r' g = {})
         \<and> (\<Union>r\<in>{0..<n}. rank_rows n r g) = {0..<g}
         \<and> (\<forall>i\<in>{0..<g}. \<exists>!r. r \<in> {0..<n} \<and> i \<in> rank_rows n r g)
         \<and> (\<forall>r\<in>{0..<n}. int (card (rank_rows n r g)) = local_batch_size n r g)
         \<and> (\<forall>r\<in>{0..<n}. local_batch_size n r g
               = g div n + (if r = n - 1 then g mod n else 0))
         \<and> (\<Sum>r\<in>{0..<n}. local_batch_size n r g) = g
         \<and> (\<forall>r\<in>{0..<n}. \<forall>d. int (length d) = g \<longrightarrow>
               partition_entry n r d
                 = take (nat (local_batch_size n r g)) (drop (nat (r * (g div n))) d))
         \<and> (1 < n \<longrightarrow>
               length (data_parallel_partition n r data 0) = length data
               \<and> (\<forall>i<length data.
                     data_parallel_partition n r data 0 ! i = partition_entry n r (data ! i)))
         \<and> (\<forall>r\<in>{0..<n}. \<forall>d. int (length (partition_entry n r d))
               = local_batch_size n r (int (length d)))
         \<and> (list_all (\<lambda>input_shape. input_shape \<noteq> []) inputs \<longrightarrow>
               create_inputs_var n r inputs
                 = Inr (map (declared_input n r inputs) [0..<length inputs]))
         \<and> (1 < n \<longrightarrow>
               (\<forall>i. data_shape (declared_input n r inputs i)
                      = local_batch_size n r (inputs ! i ! 0) # tl (inputs ! i)))
         \<and> create_labels_var n r labels npoints data_size
               = map (declared_label n r npoints data_size) [0..<length labels]
         \<and> (1 < n \<longrightarrow>
               (\<forall>i. data_shape (declared_label n r npoints data_size i)
                      = [local_batch_size n r (if i \<in> {0, 1, 2} then npoints else data_size)]))
         \<and> (nranks \<le> 1 \<longrightarrow> data_parallel_partition nranks rank data time_step = data)"
proof -
  have n: "0 < n" using assms by simp
  have a: "\<forall>r\<in>{0..<n}. slice_bounds n r g
            = (r * (g div n), (r + 1) * (g div n) + (if r = n - 1 then g mod n else 0))"
    by (simp add: slice_bounds_def Let_def)
  have b: "\<forall>r\<in>{0..<n}. \<forall>r'\<in>{0..<n}. r \<noteq> r' \<longrightarrow> rank_rows n r g \<inter> rank_rows n r' g = {}"
    using rank_rows_disjoint [OF n assms(2)] by simp
  have c: "(\<Union>r\<in>{0..<n}. rank_rows n r g) = {0..<g}"
    by (rule rank_rows_union [OF n assms(2)])
  have d: "\<forall>i\<in>{0..<g}. \<exists>!r. r \<in> {0..<n} \<and> i \<in> rank_rows n r g"
    using rank_rows_unique [OF n assms(2)] by blast
  have e: "\<forall>r\<in>{0..<n}. int (card (rank_rows n r g)) = local_batch_size n r g"
    using card_rank_rows [OF n assms(2)] by simp
  have f: "\<forall>r\<in>{0..<n}. local_batch_size n r g = g div n + (if r = n - 1 then g mod n else 0)"
    by (simp add: local_batch_size_def Let_def)
  have s: "(\<Sum>r\<in>{0..<n}. local_batch_size n r g) = g"
    by (rule local_batch_size_sum [OF n])
  have h: "\<forall>r\<in>{0..<n}. \<forall>d. int (length d) = g \<longrightarrow>
               partition_entry n r d
                 = take (nat (local_batch_size n r g)) (drop (nat (r * (g div n))) d)"
    using partition_entry_rows [OF n] by (auto simp add: fst_slice_bounds)
  have i: "1 < n \<longrightarrow>
               length (data_parallel_partition n r data 0) = length data
               \<and> (\<forall>i<length data.
                     data_parallel_partition n r data 0 ! i = partition_entry n r (data ! i))"
    using data_parallel_partition_nth [of n r data 0] by simp
  have h': "\<forall>r\<in>{0..<n}. \<forall>d. int (length (partition_entry n r d))
               = local_batch_size n r (int (length d))"
    using length_partition_entry [OF n] by auto
  have j: "list_all (\<lambda>input_shape. input_shape \<noteq> []) inputs \<longrightarrow>
               create_inputs_var n r inputs
                 = Inr (map (declared_input n r inputs) [0..<length inputs])"
    by (simp add: create_inputs_var_declared)
  have j': "1 < n \<longrightarrow>
               (\<forall>i. data_shape (declared_input n r inputs i)
                      = local_batch_size n r (inputs ! i ! 0) # tl (inputs ! i))"
    by (simp add: declared_input_def)
  have k: "create_labels_var n r labels npoints data_size
               = map (declared_label n r npoints data_size) [0..<length labels]"
    by (rule create_labels_var_declared)
  have k': "1 < n \<longrightarrow>
               (\<forall>i. data_shape (declared_label n r npoints data_size i)
                      = [local_batch_size n r (if i \<in> {0, 1, 2} then npoints else data_size)])"
    by (simp add: declared_label_def)
  have l: "nranks \<le> 1 \<longrightarrow> data_parallel_partition nranks rank data time_step = data"
    by (simp add: data_parallel_partition_single)
  show ?thesis
    by (intro conjI a b c d e f s h i h' j j' k k' l)
qed


theorem partition_covers_witness:
  "(1::int) \<le> 3 \<and> (0::int) \<le> 11
   \<and> slice_bounds 3 0 11 = (0, 3) \<and> slice_bounds 3 1 11 = (3, 6) \<and> slice_bounds 3 2 11 = (6, 11)
   \<and> (\<Union>r\<in>{0..<3}. rank_rows 3 r 11) = {0..<11}
   \<and> (\<Sum>r\<in>{0..<3}. local_batch_size 3 r 11) = 11
   \<and> partition_entry 3 2 [0, 1, 2, 3, 4, 5, 6, 7, 8, 9, 10 :: int] = [6, 7, 8, 9, 10]
   \<and> create_inputs_var 3 2 [[11, 3], [7, 3]]
       = Inr [\<lparr>data_name = ''input0'', data_shape = [5, 3], data_dtype = ''float32'',
                stop_gradient = False\<rparr>,
              \<lparr>data_name = ''input1'', data_shape = [3, 3], data_dtype = ''float32'',
                stop_gradient = False\<rparr>]
   \<and> create_labels_var 3 2 [(), (), (), ()] 11 7
       = [\<lparr>data_name = ''label0'', data_shape = [5], data_dtype = ''float32'',
            stop_gradient = False\<rparr>,
          \<lparr>data_name = ''label1'', data_shape = [5], data_dtype = ''float32'',
            stop_gradient = False\<rparr>,
          \<lparr>data_name = ''label2'', data_shape = [5], data_dtype = ''float32'',
            stop_gradient = False\<rparr>,
          \<lparr>data_name = ''label3'', data_shape = [3], data_dtype = ''float32'',
            stop_gradient = False\<rparr>]
   \<and> data_parallel_partition 1 0 ex_data 0 = ex_data"
proof -
  have n: "(1::int) \<le> 3" and g: "(0::int) \<le> 11" by simp_all
  note covers = partition_covers [OF n g]
  have union: "(\<Union>r\<in>{0..<3}. rank_rows 3 r 11) = {0..<11}"
    by (rule covers [THEN conjunct2, THEN conjunct2, THEN conjunct1])
  have total: "(\<Sum>r\<in>{0..<3}. local_batch_size 3 r 11) = 11"
    by (rule covers [THEN conjunct2, THEN conjunct2, THEN conjunct2, THEN conjunct2,
          THEN conjunct2, THEN conjunct2, THEN conjunct1])
  have bounds: "slice_bounds 3 0 11 = (0, 3)" "slice_bounds 3 1 11 = (3, 6)"
    "slice_bounds 3 2 11 = (6, 11)"
    by (simp_all add: slice_bounds_def Let_def)
  have rows: "partition_entry 3 2 [0, 1, 2, 3, 4, 5, 6, 7, 8, 9, 10 :: int] = [6, 7, 8, 9, 10]"
    by (simp add: partition_entry_def slice_bounds_def py_slice_def Let_def)
  have shapes: "list_all (\<lambda>input_shape. input_shape \<noteq> []) [[11, 3], [7, 3 :: int]]"
    by simp
  have "create_inputs_var 3 2 [[11, 3], [7, 3]]
        = Inr (map (declared_input 3 2 [[11, 3], [7, 3]]) [0..<length [[11, 3], [7, 3 :: int]]])"
    using covers [THEN conjunct2, THEN conjunct2, THEN conjunct2, THEN conjunct2,
        THEN conjunct2, THEN conjunct2, THEN conjunct2, THEN conjunct2, THEN conjunct2,
        THEN conjunct2, THEN conjunct1, of "[[11, 3], [7, 3]]" 2] shapes
    by simp
  then have var: "create_inputs_var 3 2 [[11, 3], [7, 3]]
       = Inr [\<lparr>data_name = ''input0'', data_shape = [5, 3], data_dtype = ''float32'',
                stop_gradient = False\<rparr>,
              \<lparr>data_name = ''input1'', data_shape = [3, 3], data_dtype = ''float32'',
                stop_gradient = False\<rparr>]"
    by (simp add: declared_input_def local_batch_size_def Let_def upt_rec digit_char_def)
  have lab: "create_labels_var 3 2 [(), (), (), ()] 11 7
       = [\<lparr>data_name = ''label0'', data_shape = [5], data_dtype = ''float32'',
            stop_gradient = False\<rparr>,
          \<lparr>data_name = ''label1'', data_shape = [5], data_dtype = ''float32'',
            stop_gradient = False\<rparr>,
          \<lparr>data_name = ''label2'', data_shape = [5], data_dtype = ''float32'',
            stop_gradient = False\<rparr>,
          \<lparr>data_name = ''label3'', data_shape = [3], data_dtype = ''float32'',
            stop_gradient = False\<rparr>]"
    by (simp add: create_labels_var_def label_var_def local_batch_size_def Let_def upt_rec
        digit_char_def)
  have single: "data_parallel_partition 1 0 ex_data 0 = ex_data"
    by (simp add: data_parallel_partition_def)
  show ?thesis
    by (intro conjI n g bounds union total rows var lab single)
qed


subsection \<open>What is left to the engine\<close>

lemma for_each_fails_at:
  assumes "x \<in> set xs" and "\<And>a. body a x = Inl e"
    and "\<And>a y e'. y \<in> set xs \<Longrightarrow> body a y = Inl e' \<Longrightarrow> e' = e"
  shows "for_each body s xs = Inl e"
  using assms
proof (induction xs arbitrary: s)
  case Nil
  then show ?case by simp
next
  case (Cons y ys)
  show ?case
  proof (cases "body s y")
    case (Inl e')
    then have "e' = e" using Cons.prems(3) [of y s e'] by simp
    then show ?thesis using Inl by simp
  next
    case (Inr s')
    then have "y \<noteq> x" using Cons.prems(2) [of s] by auto
    then have "x \<in> set ys" using Cons.prems(1) by simp
    then have "for_each body s' ys = Inl e"
      using Cons.prems(2,3) by (intro Cons.IH) auto
    then show ?thesis using Inr by simp
  qed
qed























subsection \<open>Translated fields\<close>

lemma derivative_shift:
  fixes f :: "real \<Rightarrow> real"
  assumes "(f has_field_derivative d) (at (x - c))"
  shows "((\<lambda>t. f (t - c)) has_field_derivative d) (at x)"
  using assms DERIV_shift [of f d x "- c"] by simp

lemma partials_shift:
  assumes "partials f fx fy fz"
  shows "partials (shift c f) (shift c fx) (shift c fy) (shift c fz)"
  unfolding partials_def shift_def
proof (intro allI conjI)
  fix x y z
  from assms have
    dx: "((\<lambda>t. f t (y - c) (z - c)) has_field_derivative fx (x - c) (y - c) (z - c)) (at (x - c))"
    and dy: "((\<lambda>t. f (x - c) t (z - c)) has_field_derivative fy (x - c) (y - c) (z - c)) (at (y - c))"
    and dz: "((\<lambda>t. f (x - c) (y - c) t) has_field_derivative fz (x - c) (y - c) (z - c)) (at (z - c))"
    by (simp_all add: partials_def)
  show "((\<lambda>t. f (t - c) (y - c) (z - c)) has_field_derivative fx (x - c) (y - c) (z - c)) (at x)"
    using dx by (rule derivative_shift)
  show "((\<lambda>t. f (x - c) (t - c) (z - c)) has_field_derivative fy (x - c) (y - c) (z - c)) (at y)"
    using dy by (rule derivative_shift)
  show "((\<lambda>t. f (x - c) (y - c) (t - c)) has_field_derivative fz (x - c) (y - c) (z - c)) (at z)"
    using dz by (rule derivative_shift)
qed

lemma twice_differentiable_shift:
  "twice_differentiable F \<Longrightarrow> twice_differentiable (shift_field c F)"
  by (simp add: twice_differentiable_def shift_field_def partials_shift)

lemma at_row_shift:
  assumes "length row = 3"
  shows "at_row (shift c f) (map (\<lambda>x. x + c) row) = at_row f row"
  using assms by (simp add: at_row_def shift_def)

lemma gradient_rows_shift:
  assumes "has_shape n 3 pts"
  shows "gradient_rows (shift c fx) (shift c fy) (shift c fz) (translate c pts)
         = gradient_rows fx fy fz pts"
  using assms
  by (simp add: gradient_rows_def translate_def has_shape_def list_all_iff at_row_shift comp_def)

lemma network_outputs_shift:
  assumes "has_shape n 3 pts"
  shows "network_outputs (shift_field c U) (shift_field c V) (shift_field c W) (shift_field c P)
           (translate c pts) = network_outputs U V W P pts"
  using assms
  by (simp add: network_outputs_def translate_def has_shape_def list_all_iff at_row_shift
      comp_def shift_field_def)

lemma engine_gradients_shift:
  assumes "has_shape n 3 pts"
  shows "engine_gradients (shift_field c U) (shift_field c V) (shift_field c W) (shift_field c P)
           (translate c pts) = engine_gradients U V W P pts"
  by (simp add: engine_gradients_def shift_field_def gradient_rows_shift [OF assms])


text \<open>
  Claim C7. For u, v, w, p given as differentiable functions of the coordinates and every
  offset c: the same fields seen from coordinates translated by c are differentiable with
  the translated derivatives, the network outputs and the gradient tensors at the translated
  points are those at the original points, and compute_eq_loss returns the same value.
\<close>

theorem eq_loss_translation_invariant:
  assumes "twice_differentiable U" "twice_differentiable V" "twice_differentiable W"
    and "partials (val P) (d_x P) (d_y P) (d_z P)"
    and "has_shape n 3 inputs"
  shows "twice_differentiable (shift_field c U) \<and> twice_differentiable (shift_field c V)
         \<and> twice_differentiable (shift_field c W)
         \<and> partials (val (shift_field c P)) (d_x (shift_field c P)) (d_y (shift_field c P))
              (d_z (shift_field c P))
         \<and> network_outputs (shift_field c U) (shift_field c V) (shift_field c W)
              (shift_field c P) (translate c inputs) = network_outputs U V W P inputs
         \<and> engine_gradients (shift_field c U) (shift_field c V) (shift_field c W)
              (shift_field c P) (translate c inputs) = engine_gradients U V W P inputs
         \<and> compute_eq_loss
              (engine_gradients (shift_field c U) (shift_field c V) (shift_field c W)
                 (shift_field c P) (translate c inputs))
              (translate c inputs)
              (network_outputs (shift_field c U) (shift_field c V) (shift_field c W)
                 (shift_field c P) (translate c inputs))
              labels_var
            = compute_eq_loss (engine_gradients U V W P inputs) inputs
                (network_outputs U V W P inputs) labels_var"
proof -
  have p: "partials (val (shift_field c P)) (d_x (shift_field c P)) (d_y (shift_field c P))
              (d_z (shift_field c P))"
    using assms(4) by (simp add: shift_field_def partials_shift)
  have loss: "compute_eq_loss
              (engine_gradients (shift_field c U) (shift_field c V) (shift_field c W)
                 (shift_field c P) (translate c inputs))
              (translate c inputs)
              (network_outputs (shift_field c U) (shift_field c V) (shift_field c W)
                 (shift_field c P) (translate c inputs))
              labels_var
            = compute_eq_loss (engine_gradients U V W P inputs) inputs
                (network_outputs U V W P inputs) labels_var"
    unfolding engine_gradients_shift [OF assms(5)] network_outputs_shift [OF assms(5)]
    by (rule compute_eq_loss_translate)
  show ?thesis
    by (intro conjI twice_differentiable_shift assms(1-3) p
        network_outputs_shift [OF assms(5)] engine_gradients_shift [OF assms(5)] loss)
qed

lemma partials_const: "partials (\<lambda>x y z. k) (\<lambda>x y z. 0) (\<lambda>x y z. 0) (\<lambda>x y z. 0)"
  by (simp add: partials_def)

lemma twice_differentiable_zero: "twice_differentiable zero_field"
  by (simp add: twice_differentiable_def zero_field_def partials_const)

lemma twice_differentiable_ex_U: "twice_differentiable ex_U"
  by (auto simp add: twice_differentiable_def ex_U_def zero_field_def partials_def
      intro!: derivative_eq_intros)

lemma twice_differentiable_ex_V: "twice_differentiable ex_V"
  by (auto simp add: twice_differentiable_def ex_V_def zero_field_def partials_def
      intro!: derivative_eq_intros)

lemma partials_ex_P: "partials (val ex_P) (d_x ex_P) (d_y ex_P) (d_z ex_P)"
  by (auto simp add: ex_P_def zero_field_def partials_def intro!: derivative_eq_intros)

lemmas field_eval_defs =
  engine_gradients_def network_outputs_def gradient_rows_def at_row_def ex_U_def ex_V_def
  ex_P_def zero_field_def

lemma ex_field_loss:
  "compute_eq_loss (engine_gradients ex_U ex_V zero_field ex_P [[1, 2, 3]]) [[1, 2, 3]]
     (network_outputs ex_U ex_V zero_field ex_P [[1, 2, 3]]) [[0], [0], [0]]
   = Inr (348804 / 1000000)"
  by (simp add: field_eval_defs eq_eval_defs)


theorem eq_loss_translation_invariant_witness:
  "twice_differentiable ex_U \<and> twice_differentiable ex_V \<and> twice_differentiable zero_field
   \<and> partials (val ex_P) (d_x ex_P) (d_y ex_P) (d_z ex_P)
   \<and> has_shape 1 3 [[1, 2, 3]]
   \<and> translate 5 [[1, 2, 3]] = [[6, 7, 8]]
   \<and> twice_differentiable (shift_field 5 ex_U)
   \<and> compute_eq_loss
        (engine_gradients (shift_field 5 ex_U) (shift_field 5 ex_V) (shift_field 5 zero_field)
           (shift_field 5 ex_P) [[6, 7, 8]])
        [[6, 7, 8]]
        (network_outputs (shift_field 5 ex_U) (shift_field 5 ex_V) (shift_field 5 zero_field)
           (shift_field 5 ex_P) [[6, 7, 8]])
        [[0], [0], [0]]
      = Inr (348804 / 1000000)
   \<and> compute_eq_loss (engine_gradients ex_U ex_V zero_field ex_P [[1, 2, 3]]) [[1, 2, 3]]
        (network_outputs ex_U ex_V zero_field ex_P [[1, 2, 3]]) [[0], [0], [0]]
      = Inr (348804 / 1000000)"
proof -
  have shape: "has_shape 1 3 [[1, 2, 3]]" by (simp add: has_shape_def)
  have moved: "translate 5 [[1, 2, 3]] = [[6, 7, 8]]" by (simp add: translate_def)
  note inv = eq_loss_translation_invariant [OF twice_differentiable_ex_U
      twice_differentiable_ex_V twice_differentiable_zero partials_ex_P shape,
      of 5 "[[0], [0], [0]]", unfolded moved]
  have shifted: "twice_differentiable (shift_field 5 ex_U)"
    by (rule inv [THEN conjunct1])
  have same: "compute_eq_loss
        (engine_gradients (shift_field 5 ex_U) (shift_field 5 ex_V) (shift_field 5 zero_field)
           (shift_field 5 ex_P) [[6, 7, 8]])
        [[6, 7, 8]]
        (network_outputs (shift_field 5 ex_U) (shift_field 5 ex_V) (shift_field 5 zero_field)
           (shift_field 5 ex_P) [[6, 7, 8]])
        [[0], [0], [0]]
      = Inr (348804 / 1000000)"
    by (rule trans [OF inv [THEN conjunct2, THEN conjunct2, THEN conjunct2, THEN conjunct2,
            THEN conjunct2, THEN conjunct2] ex_field_loss])
  show ?thesis
    by (intro conjI twice_differentiable_ex_U twice_differentiable_ex_V
        twice_differentiable_zero partials_ex_P shape moved shifted same ex_field_loss)
qed

end
